theory Spec2Isabelle
  imports Complex_Main
begin

section \<open>The declarations handed over by code generation\<close>

text \<open>
  The module reads declarator trees of the library \<^verbatim>\<open>cgen\<close> with \<^verbatim>\<open>isinstance\<close> and
  attribute access. The declarator classes are a datatype: \<^verbatim>\<open>POD(dtype, name)\<close> and
  \<^verbatim>\<open>Value(typename, name)\<close> are the leaves, the others wrap one declarator in their
  attribute \<^verbatim>\<open>subdecl\<close>. \<^verbatim>\<open>RestrictPointer\<close> is a subclass of \<^verbatim>\<open>Pointer\<close>, so a plain
  \<^verbatim>\<open>Pointer\<close> is not an instance of it. A NumPy dtype is one of the scalar dtypes.
\<close>

datatype dtype =
    Bool | Int8 | Int16 | Int32 | Int64 | UInt8 | UInt16 | UInt32 | UInt64
  | Float16 | Float32 | Float64 | Complex64 | Complex128

datatype decl =
    POD dtype string
  | Value string string
  | Const decl
  | Pointer decl
  | RestrictPointer decl
  | Reference decl
  | ArrayOf decl

text \<open>\<^verbatim>\<open>FunctionDeclaration(subdecl, arg_decls)\<close>.\<close>

record func_decl =
  subdecl :: decl
  arg_decls :: "decl list"

section \<open>Errors\<close>

text \<open>
  The exceptions that the module \<^verbatim>\<open>loopy/target/c/c_execution.py\<close> raises itself or
  lets through from the libraries it calls. The two \<^verbatim>\<open>ValueError\<close>s of the module carry
  what their message is formatted from.
\<close>

datatype error =
    UnhandledRestype string    \<comment> \<open>\<^verbatim>\<open>ValueError('Unhandled restype %r' % (restype, ))\<close>\<close>
  | UnhandledArgType decl      \<comment> \<open>\<^verbatim>\<open>ValueError('unhandled type for arg %r' % (arg, ))\<close>\<close>
  | AttributeError             \<comment> \<open>an attribute read on an object that lacks it\<close>
  | TypeError                  \<comment> \<open>raised by \<^verbatim>\<open>ctypes\<close>\<close>
  | OverflowError              \<comment> \<open>raised by \<^verbatim>\<open>ctypes\<close>\<close>
  | IndexError                 \<comment> \<open>\<^verbatim>\<open>decls[0]\<close> on an empty list\<close>
  | CalledProcessError         \<comment> \<open>\<^verbatim>\<open>subprocess.check_call\<close>, non-zero exit\<close>
  | OSError                    \<comment> \<open>a file, program or library that cannot be opened\<close>
  | RegistryError              \<comment> \<open>the dtype registry has no C name for a dtype\<close>
  | CollaboratorError string   \<comment> \<open>raised by scheduling or code generation\<close>

text \<open>
  Attribute reads on a declarator. Every declarator has a \<^verbatim>\<open>name\<close> (a wrapper passes its
  inner one on); only \<^verbatim>\<open>POD\<close> has a \<^verbatim>\<open>dtype\<close>, only \<^verbatim>\<open>Value\<close> a \<^verbatim>\<open>typename\<close>, only a
  wrapper a \<^verbatim>\<open>subdecl\<close>.
\<close>

fun decl_name :: "decl \<Rightarrow> string" where
  "decl_name (POD d n) = n"
| "decl_name (Value t n) = n"
| "decl_name (Const d) = decl_name d"
| "decl_name (Pointer d) = decl_name d"
| "decl_name (RestrictPointer d) = decl_name d"
| "decl_name (Reference d) = decl_name d"
| "decl_name (ArrayOf d) = decl_name d"

fun decl_dtype :: "decl \<Rightarrow> error + dtype" where
  "decl_dtype (POD d n) = Inr d"
| "decl_dtype _ = Inl AttributeError"

fun decl_typename :: "decl \<Rightarrow> error + string" where
  "decl_typename (Value t n) = Inr t"
| "decl_typename _ = Inl AttributeError"

fun decl_subdecl :: "decl \<Rightarrow> error + decl" where
  "decl_subdecl (POD d n) = Inl AttributeError"
| "decl_subdecl (Value t n) = Inl AttributeError"
| "decl_subdecl (Const d) = Inr d"
| "decl_subdecl (Pointer d) = Inr d"
| "decl_subdecl (RestrictPointer d) = Inr d"
| "decl_subdecl (Reference d) = Inr d"
| "decl_subdecl (ArrayOf d) = Inr d"

text \<open>\<^verbatim>\<open>isinstance(arg, cgen.Const)\<close> and \<^verbatim>\<open>isinstance(arg, cgen.RestrictPointer)\<close>.\<close>

fun is_Const :: "decl \<Rightarrow> bool" where
  "is_Const (Const d) = True"
| "is_Const _ = False"

fun is_RestrictPointer :: "decl \<Rightarrow> bool" where
  "is_RestrictPointer (RestrictPointer d) = True"
| "is_RestrictPointer _ = False"

section \<open>The part of ctypes that the module uses\<close>

text \<open>
  A value that \<^verbatim>\<open>getattr(ctypes, 'c_' + typename)\<close> can return: one of the fundamental
  types, or the function \<^verbatim>\<open>c_buffer\<close>, which is not a type. \<^verbatim>\<open>POINTER(t)\<close> builds a
  pointer type.
\<close>

datatype ctype =
    CSimple string
  | CPointer ctype
  | NotAType string

definition float_types :: "string list" where
  "float_types = [''c_float'', ''c_double'', ''c_longdouble'']"

definition int_types :: "string list" where
  "int_types =
     [''c_byte'', ''c_ubyte'', ''c_short'', ''c_ushort'', ''c_int'', ''c_uint'',
      ''c_long'', ''c_ulong'', ''c_longlong'', ''c_ulonglong'', ''c_size_t'', ''c_ssize_t'',
      ''c_int8'', ''c_int16'', ''c_int32'', ''c_int64'',
      ''c_uint8'', ''c_uint16'', ''c_uint32'', ''c_uint64'']"

definition address_types :: "string list" where
  "address_types = [''c_char_p'', ''c_wchar_p'', ''c_void_p'', ''c_voidp'']"

definition simple_types :: "string list" where
  "simple_types =
     float_types @ int_types @ address_types @ [''c_bool'', ''c_char'', ''c_wchar'']"

definition ctypes_getattr :: "string \<Rightarrow> error + ctype" where
  "ctypes_getattr a =
     (if a \<in> set simple_types then Inr (CSimple a)
      else if a = ''c_buffer'' then Inr (NotAType a)
      else Inl AttributeError)"

fun POINTER :: "ctype \<Rightarrow> error + ctype" where
  "POINTER (NotAType a) = Inl TypeError"
| "POINTER t = Inr (CPointer t)"

text \<open>
  The Python values passed to a kernel: an \<^verbatim>\<open>int\<close>, a \<^verbatim>\<open>float\<close>, or a NumPy array
  \<open>NdArray size data\<close>, the only one with an attribute \<^verbatim>\<open>ctypes\<close>, of which the call reads
  \<^verbatim>\<open>size\<close> and the address of its data.
\<close>

datatype pyscalar = PyInt int | PyFloat real

datatype pyval = Scalar pyscalar | NdArray nat nat

text \<open>
  A native argument: the instance \<^verbatim>\<open>t(v)\<close> of a fundamental type, which holds the C
  conversion of \<open>v\<close>, or the pointer that \<^verbatim>\<open>cast\<close> makes of an address.
\<close>

datatype native_arg =
    CInstance ctype pyscalar
  | CCast ctype nat

text \<open>
  Calling a type with one Python number. A pointer type takes an instance of the type
  it points to and nothing else, so a Python number is a \<^verbatim>\<open>TypeError\<close>. A floating type
  takes a \<^verbatim>\<open>float\<close>, or an \<^verbatim>\<open>int\<close> that converts to a C double; an integer type takes an
  \<^verbatim>\<open>int\<close> of any size (it is masked) and no \<^verbatim>\<open>float\<close>; \<^verbatim>\<open>c_bool\<close> takes anything;
  \<^verbatim>\<open>c_char\<close> an \<^verbatim>\<open>int\<close> below 256; the address types an \<^verbatim>\<open>int\<close>; \<^verbatim>\<open>c_wchar\<close> neither.
  \<^verbatim>\<open>NotAType\<close> never is an element of \<^verbatim>\<open>argtypes\<close>, see \<open>set_argtypes\<close>.
\<close>

fun ctype_call :: "ctype \<Rightarrow> pyscalar \<Rightarrow> error + native_arg" where
  "ctype_call (CPointer t) v = Inl TypeError"
| "ctype_call (NotAType a) v = Inl TypeError"
| "ctype_call (CSimple a) (PyFloat x) =
     (if a \<in> set float_types \<or> a = ''c_bool'' then Inr (CInstance (CSimple a) (PyFloat x))
      else Inl TypeError)"
| "ctype_call (CSimple a) (PyInt i) =
     (if a \<in> set float_types then
        (if \<bar>i\<bar> < 2 ^ 1024 - 2 ^ 970 then Inr (CInstance (CSimple a) (PyInt i))
         else Inl OverflowError)
      else if a \<in> set int_types \<or> a \<in> set address_types \<or> a = ''c_bool'' then
        Inr (CInstance (CSimple a) (PyInt i))
      else if a = ''c_char'' \<and> 0 \<le> i \<and> i < 256 then Inr (CInstance (CSimple a) (PyInt i))
      else Inl TypeError)"

text \<open>
  \<^verbatim>\<open>arg.ctypes.data_as(t)\<close> is \<^verbatim>\<open>ctypes.cast(data, t)\<close>: \<open>t\<close> has to be a pointer type or an
  address type.
\<close>

fun data_as :: "nat \<Rightarrow> ctype \<Rightarrow> error + native_arg" where
  "data_as addr (CPointer t) = Inr (CCast (CPointer t) addr)"
| "data_as addr (CSimple a) =
     (if a \<in> set address_types then Inr (CCast (CSimple a) addr) else Inl TypeError)"
| "data_as addr (NotAType a) = Inl TypeError"

text \<open>
  Assigning \<^verbatim>\<open>argtypes\<close> on a function of a library checks that every item is a type.
\<close>

fun is_type :: "ctype \<Rightarrow> bool" where
  "is_type (NotAType a) = False"
| "is_type _ = True"

definition set_argtypes :: "ctype list \<Rightarrow> error + ctype list" where
  "set_argtypes ts = (if list_all is_type ts then Inr ts else Inl TypeError)"

section \<open>CCompiler and CppCompiler\<close>

text \<open>
  The class attributes of \<^verbatim>\<open>CCompiler\<close> and of its subclass \<^verbatim>\<open>CppCompiler\<close>, which
  overrides three of the four. \<^verbatim>\<open>'-std=c99 -g -O3 -fPIC'.split()\<close> is written out.
\<close>

datatype compiler_class = CCompiler | CppCompiler

fun source_suffix :: "compiler_class \<Rightarrow> string" where
  "source_suffix CCompiler = ''c''"
| "source_suffix CppCompiler = ''cpp''"

fun default_exe :: "compiler_class \<Rightarrow> string" where
  "default_exe CCompiler = ''gcc''"
| "default_exe CppCompiler = ''g++''"

fun default_compile_flags :: "compiler_class \<Rightarrow> string list" where
  "default_compile_flags CCompiler = [''-std=c99'', ''-g'', ''-O3'', ''-fPIC'']"
| "default_compile_flags CppCompiler = [''-g'', ''-O3'']"

fun default_link_flags :: "compiler_class \<Rightarrow> string list" where
  "default_link_flags _ = [''-shared'']"

record compiler =
  cls :: compiler_class
  exe :: string
  cflags :: "string list"
  ldflags :: "string list"
  tempdir :: string

text \<open>
  \<^verbatim>\<open>x or d\<close> and \<^verbatim>\<open>x if x else d\<close> take \<^verbatim>\<open>d\<close> when \<^verbatim>\<open>x\<close> is falsy: \<^verbatim>\<open>None\<close>, the empty
  string, the empty list.
\<close>

fun or_default :: "'a list option \<Rightarrow> 'a list \<Rightarrow> 'a list" where
  "or_default None d = d"
| "or_default (Some []) d = d"
| "or_default (Some (x # xs)) d = x # xs"

text \<open>
  \<^verbatim>\<open>__init__(self, cc=None, cflags=None, ldflags=None)\<close>. The directory that
  \<^verbatim>\<open>tempfile.mkdtemp(prefix="tmp_loopy")\<close> creates is the argument \<open>tmp\<close>.
\<close>

definition compiler_init ::
  "compiler_class \<Rightarrow> string option \<Rightarrow> string list option \<Rightarrow> string list option \<Rightarrow> string
     \<Rightarrow> compiler" where
  "compiler_init c cc cfl ldfl tmp =
     \<lparr> cls = c,
       exe = or_default cc (default_exe c),
       cflags = or_default cfl (default_compile_flags c),
       ldflags = or_default ldfl (default_link_flags c),
       tempdir = tmp \<rparr>"

definition compile_args :: "compiler \<Rightarrow> string \<Rightarrow> string list" where
  "compile_args self c_fname = cflags self @ [''-c'', c_fname]"

definition link_args :: "compiler \<Rightarrow> string \<Rightarrow> string \<Rightarrow> string list" where
  "link_args self obj_fname dll_fname =
     ldflags self @ [''-shared'', obj_fname, ''-o'', dll_fname]"

section \<open>The world outside\<close>

text \<open>
  What the module does to the outside is logged in order: the files it writes, the
  child processes it starts (working directory and argument vector), the native
  functions it calls with their marshalled arguments, the lines it prints and the texts
  it opens in an editor. What the outside answers is the environment: whether a file
  can be opened for writing, whether a child process ends with exit status zero, which
  symbols a shared library exports when it can be loaded, the directory that
  \<^verbatim>\<open>mkdtemp\<close> makes, and the text that the editor returns when it can be run. Every
  answer may depend on all that happened before.
\<close>

record world =
  written :: "(string \<times> string) list"
  spawned :: "(string \<times> string list) list"
  native_calls :: "(string \<times> native_arg list) list"
  printed :: "string list"
  edited :: "string list"

record env =
  open_w :: "world \<Rightarrow> string \<Rightarrow> bool"
  check_call :: "world \<Rightarrow> string \<Rightarrow> string list \<Rightarrow> error option"
  CDLL :: "world \<Rightarrow> string \<Rightarrow> string list option"
  mkdtemp :: "world \<Rightarrow> string"
  invoke_editor :: "world \<Rightarrow> string \<Rightarrow> string option"

text \<open>A loaded library: its path and the symbols it exports.\<close>

record dll =
  dll_path :: string
  symbols :: "string list"

text \<open>\<^verbatim>\<open>CCompiler(cc, cflags, ldflags)\<close> with the directory taken from the environment.\<close>

definition new_compiler ::
  "env \<Rightarrow> compiler_class \<Rightarrow> string option \<Rightarrow> string list option \<Rightarrow> string list option
     \<Rightarrow> world \<Rightarrow> compiler" where
  "new_compiler ev c cc cfl ldfl w = compiler_init c cc cfl ldfl (mkdtemp ev w)"

text \<open>\<^verbatim>\<open>_tempname\<close>: \<^verbatim>\<open>os.path.join(self.tempdir, name)\<close> for a relative \<open>name\<close>.\<close>

definition tempname :: "compiler \<Rightarrow> string \<Rightarrow> string" where
  "tempname self nm = tempdir self @ ''/'' @ nm"

text \<open>\<^verbatim>\<open>_call\<close>: the process is started in any case; a failure is its exception.\<close>

definition call_compiler :: "env \<Rightarrow> compiler \<Rightarrow> string list \<Rightarrow> world \<Rightarrow> error option \<times> world" where
  "call_compiler ev self args w =
     (let cwd = tempdir self;
          args' = [exe self] @ args
      in (check_call ev w cwd args', w\<lparr>spawned := spawned w @ [(cwd, args')]\<rparr>))"

text \<open>
  \<^verbatim>\<open>build\<close>: write the source, compile, link, load. A source file that cannot be opened
  ends the build before any process is started.
\<close>

definition build :: "env \<Rightarrow> compiler \<Rightarrow> string \<Rightarrow> world \<Rightarrow> (error + dll) \<times> world" where
  "build ev self code w =
     (let c_fname = tempname self (''code.'' @ source_suffix (cls self));
          obj_fname = tempname self ''code.o'';
          dll_fname = tempname self ''code.so''
      in if \<not> open_w ev w c_fname then (Inl OSError, w)
         else
           (let w1 = w\<lparr>written := written w @ [(c_fname, code)]\<rparr>
            in case call_compiler ev self (compile_args self c_fname) w1 of
                 (Some e, w2) \<Rightarrow> (Inl e, w2)
               | (None, w2) \<Rightarrow>
                   (case call_compiler ev self (link_args self obj_fname dll_fname) w2 of
                      (Some e, w3) \<Rightarrow> (Inl e, w3)
                    | (None, w3) \<Rightarrow>
                        (case CDLL ev w3 dll_fname of
                           None \<Rightarrow> (Inl OSError, w3)
                         | Some syms \<Rightarrow>
                             (Inr \<lparr>dll_path = dll_fname, symbols = syms\<rparr>, w3)))))"

section \<open>CompiledCKernel\<close>

text \<open>
  The target is read for its dtype registry only: the C type name of a dtype, if it
  has one. A device program \<^verbatim>\<open>knl\<close> is read for its name, for \<^verbatim>\<open>str(knl.ast)\<close> and for
  the function declarations that \<^verbatim>\<open>CFunctionDeclExtractor\<close> collects from \<^verbatim>\<open>knl.ast\<close>.
\<close>

record ctarget =
  registry :: "dtype \<Rightarrow> string option"

record device_program =
  dp_name :: string
  ast_str :: string
  ast_decls :: "func_decl list"

text \<open>
  The attributes a \<^verbatim>\<open>CompiledCKernel\<close> has when \<^verbatim>\<open>__init__\<close> calls \<^verbatim>\<open>_visit_func_decl\<close>,
  and those it sets afterwards; \<open>fn_restype\<close> and \<open>fn_argtypes\<close> are \<^verbatim>\<open>_fn.restype\<close> and
  \<^verbatim>\<open>_fn.argtypes\<close>. The return type \<^verbatim>\<open>None\<close> is the only one the module ever sets.
  (\<^verbatim>\<open>_prepared_call_cache\<close> is created empty and never read.)
\<close>

record ckernel_visiting =
  target :: ctarget
  knl :: device_program
  code :: string
  comp :: compiler
  dll :: dll
  func_decl :: func_decl
  arg_info :: "(string \<times> ctype) list"

record ckernel = ckernel_visiting +
  kname :: string
  restype :: "ctype option"
  fn_restype :: "ctype option"
  fn_argtypes :: "ctype list"

text \<open>\<^verbatim>\<open>_dtype_to_ctype(self, dtype, pointer=False)\<close>.\<close>

definition dtype_to_ctype :: "ctarget \<Rightarrow> dtype \<Rightarrow> bool \<Rightarrow> error + ctype" where
  "dtype_to_ctype tgt dt pointer =
     (case registry tgt dt of
        None \<Rightarrow> Inl RegistryError
      | Some typename \<Rightarrow>
          (let typename' = (if typename = ''unsigned'' then ''uint'' else typename)
           in case ctypes_getattr (''c_'' @ typename') of
                Inl e \<Rightarrow> Inl e
              | Inr basetype \<Rightarrow> if pointer then POINTER basetype else Inr basetype))"

text \<open>\<^verbatim>\<open>_append_arg(self, name, dtype, pointer=False)\<close>.\<close>

definition append_arg ::
  "'a ckernel_visiting_scheme \<Rightarrow> string \<Rightarrow> dtype \<Rightarrow> bool \<Rightarrow> error + 'a ckernel_visiting_scheme" where
  "append_arg self nm dt pointer =
     (case dtype_to_ctype (target self) dt pointer of
        Inl e \<Rightarrow> Inl e
      | Inr ct \<Rightarrow> Inr (self\<lparr>arg_info := arg_info self @ [(nm, ct)]\<rparr>))"

text \<open>
  \<^verbatim>\<open>_visit_pointer(self, node)\<close>: the arguments of \<^verbatim>\<open>_append_arg\<close> are evaluated from the
  left, \<^verbatim>\<open>pod.name\<close> before \<^verbatim>\<open>pod.dtype\<close>.
\<close>

definition visit_pointer :: "'a ckernel_visiting_scheme \<Rightarrow> decl \<Rightarrow> error + 'a ckernel_visiting_scheme" where
  "visit_pointer self node =
     (case decl_subdecl node of
        Inl e \<Rightarrow> Inl e
      | Inr pod \<Rightarrow>
          (let nm = decl_name pod
           in case decl_dtype pod of
                Inl e \<Rightarrow> Inl e
              | Inr dt \<Rightarrow> append_arg self nm dt True))"

text \<open>\<^verbatim>\<open>_visit_const(self, node)\<close>.\<close>

definition visit_const :: "'a ckernel_visiting_scheme \<Rightarrow> decl \<Rightarrow> error + 'a ckernel_visiting_scheme" where
  "visit_const self node =
     (case decl_subdecl node of
        Inl e \<Rightarrow> Inl e
      | Inr sub \<Rightarrow>
          if is_RestrictPointer sub then visit_pointer self sub
          else (let pod = sub; nm = decl_name pod
                in case decl_dtype pod of
                     Inl e \<Rightarrow> Inl e
                   | Inr dt \<Rightarrow> append_arg self nm dt False))"

text \<open>
  \<^verbatim>\<open>_visit_func_decl(self, func_decl)\<close>: the body of the loop over
  \<^verbatim>\<open>func_decl.arg_decls\<close>, and the loop.
\<close>

definition visit_arg_decl :: "'a ckernel_visiting_scheme \<Rightarrow> decl \<Rightarrow> error + 'a ckernel_visiting_scheme" where
  "visit_arg_decl self arg =
     (if is_Const arg then visit_const self arg
      else if is_RestrictPointer arg then visit_pointer self arg
      else Inl (UnhandledArgType arg))"

fun visit_arg_decls :: "'a ckernel_visiting_scheme \<Rightarrow> decl list \<Rightarrow> error + 'a ckernel_visiting_scheme" where
  "visit_arg_decls self [] = Inr self"
| "visit_arg_decls self (arg # rest) =
     (case visit_arg_decl self arg of
        Inl e \<Rightarrow> Inl e
      | Inr self' \<Rightarrow> visit_arg_decls self' rest)"

definition visit_func_decl :: "'a ckernel_visiting_scheme \<Rightarrow> func_decl \<Rightarrow> error + 'a ckernel_visiting_scheme" where
  "visit_func_decl self fd = visit_arg_decls self (arg_decls fd)"

text \<open>
  \<^verbatim>\<open>__init__(self, knl, target, comp=None)\<close>, in the order of the source: build, take
  \<^verbatim>\<open>decls[0]\<close>, visit it, check the return type, look the symbol up in the library, set
  \<^verbatim>\<open>restype\<close> and \<^verbatim>\<open>argtypes\<close>.
\<close>

definition CompiledCKernel_init ::
  "env \<Rightarrow> device_program \<Rightarrow> ctarget \<Rightarrow> compiler option \<Rightarrow> world \<Rightarrow> (error + ckernel) \<times> world" where
  "CompiledCKernel_init ev k tgt cmp w =
     (let src = ast_str k;
          cmp' = (case cmp of Some c \<Rightarrow> c | None \<Rightarrow> new_compiler ev CCompiler None None None w)
      in case build ev cmp' src w of
           (Inl e, w') \<Rightarrow> (Inl e, w')
         | (Inr lib, w') \<Rightarrow>
             (case ast_decls k of
                [] \<Rightarrow> (Inl IndexError, w')
              | fd # _ \<Rightarrow>
                  (case visit_func_decl
                          \<lparr>target = tgt, knl = k, code = src, comp = cmp', dll = lib,
                           func_decl = fd, arg_info = []\<rparr> fd of
                     Inl e \<Rightarrow> (Inl e, w')
                   | Inr self \<Rightarrow>
                       (case decl_typename (subdecl fd) of
                          Inl e \<Rightarrow> (Inl e, w')
                        | Inr rt \<Rightarrow>
                            if rt = ''void'' then
                              (if dp_name k \<in> set (symbols lib) then
                                 (case set_argtypes (map snd (arg_info self)) of
                                    Inl e \<Rightarrow> (Inl e, w')
                                  | Inr ts \<Rightarrow>
                                      (Inr (ckernel_visiting.extend self
                                              (ckernel.fields (dp_name k) None None ts)), w'))
                               else (Inl AttributeError, w'))
                            else (Inl (UnhandledRestype rt), w')))))"

text \<open>
  \<^verbatim>\<open>__call__(self, *args)\<close>. The loop runs over \<^verbatim>\<open>zip(args, self._fn.argtypes)\<close>, which
  stops at the end of the shorter list; the first argument that cannot be marshalled
  ends the call. The function of the library then takes the arguments it is given only
  if they are as many as its \<^verbatim>\<open>argtypes\<close>.
\<close>

fun marshal_arg :: "pyval \<times> ctype \<Rightarrow> error + native_arg" where
  "marshal_arg (NdArray sz addr, arg_t) =
     (if sz = 0 then ctype_call arg_t (PyFloat 0.0) else data_as addr arg_t)"
| "marshal_arg (Scalar v, arg_t) = ctype_call arg_t v"

fun marshal_args :: "(pyval \<times> ctype) list \<Rightarrow> native_arg list \<Rightarrow> error + native_arg list" where
  "marshal_args [] args' = Inr args'"
| "marshal_args (p # ps) args' =
     (case marshal_arg p of
        Inl e \<Rightarrow> Inl e
      | Inr arg' \<Rightarrow> marshal_args ps (args' @ [arg']))"

definition call_fn :: "ckernel \<Rightarrow> native_arg list \<Rightarrow> world \<Rightarrow> (error + unit) \<times> world" where
  "call_fn self args' w =
     (if length args' < length (fn_argtypes self) then (Inl TypeError, w)
      else (Inr (), w\<lparr>native_calls := native_calls w @ [(kname self, args')]\<rparr>))"

definition CompiledCKernel_call ::
  "ckernel \<Rightarrow> pyval list \<Rightarrow> world \<Rightarrow> (error + unit) \<times> ckernel \<times> world" where
  "CompiledCKernel_call self args w =
     (case marshal_args (zip args (fn_argtypes self)) [] of
        Inl e \<Rightarrow> (Inl e, self, w)
      | Inr args' \<Rightarrow> (case call_fn self args' w of (r, w') \<Rightarrow> (r, self, w')))"

section \<open>CKernelExecutor\<close>

text \<open>
  The executor reads three options of its kernel. \<^verbatim>\<open>write_cl\<close> is falsy, \<^verbatim>\<open>True\<close>, or the
  path of a file.
\<close>

datatype write_cl_option = WriteOff | WriteTrue | WritePath string

record kernel_options =
  write_cl :: write_cl_option
  highlight_cl :: bool
  edit_cl :: bool

type_synonym dtype_set = "(string \<times> dtype) set"

type_synonym kwargs = "(string \<times> pyval) list"

text \<open>
  What code generation returns: \<^verbatim>\<open>device_code()\<close>, the device programs and
  \<^verbatim>\<open>implemented_data_info\<close>. An invoker is called with the compiled kernels and the
  arguments of the user, and acts on the world.
\<close>

record 'i codegen_result =
  device_code :: string
  device_programs :: "device_program list"
  cg_implemented_data_info :: 'i

type_synonym invoker_fn =
  "ckernel list \<Rightarrow> pyval list \<Rightarrow> kwargs \<Rightarrow> world \<Rightarrow> (error + pyval list) \<times> world"

record ('k, 'i) kernel_info =
  kernel :: 'k
  c_kernels :: "ckernel list"
  implemented_data_info :: 'i
  invoker :: invoker_fn

text \<open>
  The methods that \<^verbatim>\<open>CKernelExecutor\<close> inherits from \<^verbatim>\<open>KernelExecutorBase\<close> and the
  functions of \<^verbatim>\<open>loopy.codegen\<close> it calls are parameters.
\<close>

record ('k, 'i) collaborators =
  get_typed_and_scheduled_kernel :: "dtype_set \<Rightarrow> error + 'k"
  generate_code_v2 :: "'k \<Rightarrow> error + 'i codegen_result"
  get_highlighted_code :: "string \<Rightarrow> string"
  make_invoker :: "'k \<Rightarrow> 'i codegen_result \<Rightarrow> invoker_fn"
  unpack :: "kwargs \<Rightarrow> kwargs"
  arg_to_dtype_set :: "kwargs \<Rightarrow> dtype_set"

text \<open>
  \<^verbatim>\<open>memoize_method\<close> of \<^verbatim>\<open>pytools\<close> keeps a dictionary on the object, keyed by the tuple of
  the positional arguments as they were passed: none, the dtype set, or the dtype set
  and \<^verbatim>\<open>all_kwargs\<close>. A call with a key in the dictionary returns the stored result; any
  other call runs the method and stores the result once the method has returned. An
  exception leaves the method before anything is stored.
\<close>

datatype 'a kernel_info_args =
    Args0
  | Args1 dtype_set
  | Args2 dtype_set 'a

fun arg_to_dtype_set_of :: "'a kernel_info_args \<Rightarrow> dtype_set" where
  "arg_to_dtype_set_of Args0 = {}"
| "arg_to_dtype_set_of (Args1 s) = s"
| "arg_to_dtype_set_of (Args2 s kw) = s"

record ('k, 'i, 'a) executor =
  compiler :: compiler
  options :: kernel_options
  ktarget :: ctarget
  memo :: "'a kernel_info_args \<Rightarrow> ('k, 'i) kernel_info option"

text \<open>\<^verbatim>\<open>__init__(self, kernel, compiler=None)\<close>: the memo dictionary starts empty.\<close>

definition CKernelExecutor_init ::
  "env \<Rightarrow> kernel_options \<Rightarrow> ctarget \<Rightarrow> compiler option \<Rightarrow> world \<Rightarrow> ('k, 'i, 'a) executor" where
  "CKernelExecutor_init ev opts tgt cmp w =
     \<lparr> compiler = (case cmp of Some c \<Rightarrow> c | None \<Rightarrow> new_compiler ev CCompiler None None None w),
       options = opts, ktarget = tgt, memo = (\<lambda>key. None) \<rparr>"

text \<open>The loop that compiles one \<^verbatim>\<open>CompiledCKernel\<close> for each device program.\<close>

fun compile_device_programs ::
  "env \<Rightarrow> ctarget \<Rightarrow> compiler \<Rightarrow> device_program list \<Rightarrow> ckernel list \<Rightarrow> world
     \<Rightarrow> (error + ckernel list) \<times> world" where
  "compile_device_programs ev tgt cmp [] acc w = (Inr acc, w)"
| "compile_device_programs ev tgt cmp (dp # dps) acc w =
     (case CompiledCKernel_init ev dp tgt (Some cmp) w of
        (Inl e, w') \<Rightarrow> (Inl e, w')
      | (Inr k, w') \<Rightarrow> compile_device_programs ev tgt cmp dps (acc @ [k]) w')"

text \<open>
  The \<^verbatim>\<open>write_cl\<close> block: print the code, or write it to the file, which may fail to
  open. The empty path is falsy as \<^verbatim>\<open>None\<close> and \<^verbatim>\<open>False\<close> are.
\<close>

definition write_code ::
  "('k, 'i) collaborators \<Rightarrow> env \<Rightarrow> kernel_options \<Rightarrow> string \<Rightarrow> world \<Rightarrow> error + world" where
  "write_code cb ev opts dev_code w =
     (case write_cl opts of
        WriteOff \<Rightarrow> Inr w
      | WriteTrue \<Rightarrow>
          (let output = (if highlight_cl opts then get_highlighted_code cb dev_code
                         else dev_code)
           in Inr (w\<lparr>printed := printed w @ [output]\<rparr>))
      | WritePath p \<Rightarrow>
          if p = [] then Inr w
          else
            (let output = (if highlight_cl opts then get_highlighted_code cb dev_code
                           else dev_code)
             in if open_w ev w p then Inr (w\<lparr>written := written w @ [(p, output)]\<rparr>)
                else Inl OSError))"

text \<open>
  The \<^verbatim>\<open>edit_cl\<close> block: the editor is started on the code; the text it returns is
  bound to \<^verbatim>\<open>dev_code\<close> and not read again.
\<close>

definition edit_code :: "env \<Rightarrow> kernel_options \<Rightarrow> string \<Rightarrow> world \<Rightarrow> error + world" where
  "edit_code ev opts dev_code w =
     (if edit_cl opts then
        (case invoke_editor ev w dev_code of
           None \<Rightarrow> Inl OSError
         | Some dev_code' \<Rightarrow> Inr (w\<lparr>edited := edited w @ [dev_code]\<rparr>))
      else Inr w)"

text \<open>
  The body of \<^verbatim>\<open>kernel_info(self, arg_to_dtype_set=frozenset(), all_kwargs=None)\<close>.
\<close>

definition kernel_info_body ::
  "('k, 'i) collaborators \<Rightarrow> env \<Rightarrow> ('k, 'i, 'a) executor \<Rightarrow> dtype_set \<Rightarrow> world
     \<Rightarrow> (error + ('k, 'i) kernel_info) \<times> world" where
  "kernel_info_body cb ev self s w =
     (case get_typed_and_scheduled_kernel cb s of
        Inl e \<Rightarrow> (Inl e, w)
      | Inr knl' \<Rightarrow>
          (case generate_code_v2 cb knl' of
             Inl e \<Rightarrow> (Inl e, w)
           | Inr cg \<Rightarrow>
               (let dev_code = device_code cg
                in case write_code cb ev (options self) dev_code w of
                     Inl e \<Rightarrow> (Inl e, w)
                   | Inr w1 \<Rightarrow>
                       (case edit_code ev (options self) dev_code w1 of
                          Inl e \<Rightarrow> (Inl e, w1)
                        | Inr w2 \<Rightarrow>
                            (case compile_device_programs ev (ktarget self) (compiler self)
                                    (device_programs cg) [] w2 of
                               (Inl e, w3) \<Rightarrow> (Inl e, w3)
                             | (Inr ks, w3) \<Rightarrow>
                                 (Inr \<lparr> kernel = knl', c_kernels = ks,
                                        implemented_data_info = cg_implemented_data_info cg,
                                        invoker = make_invoker cb knl' cg \<rparr>, w3))))))"

text \<open>\<^verbatim>\<open>kernel_info\<close> as callers see it, under \<^verbatim>\<open>@memoize_method\<close>.\<close>

definition kernel_info_memo ::
  "('k, 'i) collaborators \<Rightarrow> env \<Rightarrow> ('k, 'i, 'a) executor \<Rightarrow> 'a kernel_info_args \<Rightarrow> world
     \<Rightarrow> (error + ('k, 'i) kernel_info) \<times> ('k, 'i, 'a) executor \<times> world" where
  "kernel_info_memo cb ev self key w =
     (case memo self key of
        Some r \<Rightarrow> (Inr r, self, w)
      | None \<Rightarrow>
          (case kernel_info_body cb ev self (arg_to_dtype_set_of key) w of
             (Inl e, w') \<Rightarrow> (Inl e, self, w')
           | (Inr r, w') \<Rightarrow> (Inr r, self\<lparr>memo := (memo self)(key \<mapsto> r)\<rparr>, w')))"

text \<open>\<^verbatim>\<open>__call__(self, *args, **kwargs)\<close>.\<close>

definition CKernelExecutor_call ::
  "('k, 'i) collaborators \<Rightarrow> env \<Rightarrow> ('k, 'i, 'a) executor \<Rightarrow> pyval list \<Rightarrow> kwargs \<Rightarrow> world
     \<Rightarrow> (error + pyval list) \<times> ('k, 'i, 'a) executor \<times> world" where
  "CKernelExecutor_call cb ev self args kw w =
     (let kw' = unpack cb kw
      in case kernel_info_memo cb ev self (Args1 (arg_to_dtype_set cb kw')) w of
           (Inl e, self', w') \<Rightarrow> (Inl e, self', w')
         | (Inr ki, self', w') \<Rightarrow>
             (case invoker ki (c_kernels ki) args kw' w' of (r, w'') \<Rightarrow> (r, self', w'')))"

section \<open>The classification rule as the specification words it\<close>

text \<open>
  A parameter descriptor is a name, a base type and whether the parameter is a pointer.
  A restrict pointer to a plain scalar, bare or wrapped in \<^verbatim>\<open>const\<close>, is a pointer
  parameter; a \<^verbatim>\<open>const\<close> plain scalar is a value parameter; no other shape has a
  descriptor.
\<close>

fun parameter_descriptor :: "decl \<Rightarrow> (string \<times> dtype \<times> bool) option" where
  "parameter_descriptor (RestrictPointer (POD d n)) = Some (n, d, True)"
| "parameter_descriptor (Const (RestrictPointer (POD d n))) = Some (n, d, True)"
| "parameter_descriptor (Const (POD d n)) = Some (n, d, False)"
| "parameter_descriptor _ = None"

text \<open>
  The entry of \<^verbatim>\<open>_arg_info\<close> that a parameter leads to, and the entries of a parameter
  list, by the descriptors alone.
\<close>

definition arg_info_entry :: "ctarget \<Rightarrow> decl \<Rightarrow> error + (string \<times> ctype)" where
  "arg_info_entry tgt arg =
     (case parameter_descriptor arg of
        Some (n, d, p) \<Rightarrow>
          (case dtype_to_ctype tgt d p of Inl e \<Rightarrow> Inl e | Inr ct \<Rightarrow> Inr (n, ct))
      | None \<Rightarrow>
          if is_Const arg \<or> is_RestrictPointer arg then Inl AttributeError
          else Inl (UnhandledArgType arg))"

fun arg_info_entries :: "ctarget \<Rightarrow> decl list \<Rightarrow> error + (string \<times> ctype) list" where
  "arg_info_entries tgt [] = Inr []"
| "arg_info_entries tgt (arg # rest) =
     (case arg_info_entry tgt arg of
        Inl e \<Rightarrow> Inl e
      | Inr x \<Rightarrow>
          (case arg_info_entries tgt rest of Inl e \<Rightarrow> Inl e | Inr xs \<Rightarrow> Inr (x # xs)))"

section \<open>A kernel to run the definitions on\<close>

text \<open>
  A kernel \<^verbatim>\<open>void scale(float *restrict a, int const n)\<close>, a target whose registry knows
  \<^verbatim>\<open>float32\<close> and \<^verbatim>\<open>int32\<close>, an environment in which every build succeeds, and one in
  which the first child process fails and all later ones succeed.
\<close>

definition example_world :: world where
  "example_world = \<lparr>written = [], spawned = [], native_calls = [], printed = [], edited = []\<rparr>"

definition example_env :: env where
  "example_env =
     \<lparr> open_w = (\<lambda>w p. True),
       check_call = (\<lambda>w cwd argv. None),
       CDLL = (\<lambda>w p. Some [''scale'']),
       mkdtemp = (\<lambda>w. ''/tmp/tmp_loopy0''),
       invoke_editor = (\<lambda>w c. Some c) \<rparr>"

definition flaky_env :: env where
  "flaky_env =
     \<lparr> open_w = (\<lambda>w p. True),
       check_call = (\<lambda>w cwd argv. if spawned w = [] then Some CalledProcessError else None),
       CDLL = (\<lambda>w p. Some [''scale'']),
       mkdtemp = (\<lambda>w. ''/tmp/tmp_loopy0''),
       invoke_editor = (\<lambda>w c. Some c) \<rparr>"

definition example_target :: ctarget where
  "example_target =
     \<lparr> registry = (\<lambda>d. if d = Float32 then Some ''float''
                        else if d = Int32 then Some ''int'' else None) \<rparr>"

definition example_decl :: func_decl where
  "example_decl =
     \<lparr> subdecl = Value ''void'' ''scale'',
       arg_decls = [RestrictPointer (POD Float32 ''a''), Const (POD Int32 ''n'')] \<rparr>"

definition example_knl :: device_program where
  "example_knl =
     \<lparr> dp_name = ''scale'',
       ast_str = ''void scale(float *restrict a, int const n);'',
       ast_decls = [example_decl] \<rparr>"

definition example_comp :: compiler where
  "example_comp = compiler_init CCompiler None None None ''/tmp/tmp_loopy0''"

definition example_built :: world where
  "example_built =
     \<lparr> written = [(''/tmp/tmp_loopy0/code.c'', ''void scale(float *restrict a, int const n);'')],
       spawned =
         [(''/tmp/tmp_loopy0'',
           [''gcc'', ''-std=c99'', ''-g'', ''-O3'', ''-fPIC'', ''-c'', ''/tmp/tmp_loopy0/code.c'']),
          (''/tmp/tmp_loopy0'',
           [''gcc'', ''-shared'', ''-shared'', ''/tmp/tmp_loopy0/code.o'', ''-o'',
            ''/tmp/tmp_loopy0/code.so''])],
       native_calls = [], printed = [], edited = [] \<rparr>"

definition example_kernel :: ckernel where
  "example_kernel =
     \<lparr> target = example_target, knl = example_knl,
       code = ''void scale(float *restrict a, int const n);'',
       comp = example_comp,
       dll = \<lparr>dll_path = ''/tmp/tmp_loopy0/code.so'', symbols = [''scale'']\<rparr>,
       func_decl = example_decl,
       arg_info = [(''a'', CPointer (CSimple ''c_float'')), (''n'', CSimple ''c_int'')],
       kname = ''scale'', restype = None, fn_restype = None,
       fn_argtypes = [CPointer (CSimple ''c_float''), CSimple ''c_int''] \<rparr>"

text \<open>
  Collaborators for an executor of this kernel: the typed kernel is the dtype set
  itself, code generation returns the one device program, the invoker calls the first
  compiled kernel with the positional arguments.
\<close>

definition example_invoker :: invoker_fn where
  "example_invoker ks args kw w =
     (case ks of
        [] \<Rightarrow> (Inl IndexError, w)
      | k # _ \<Rightarrow>
          (case CompiledCKernel_call k args w of
             (Inl e, _, w') \<Rightarrow> (Inl e, w')
           | (Inr _, _, w') \<Rightarrow> (Inr [], w')))"

definition example_collaborators :: "(dtype_set, unit) collaborators" where
  "example_collaborators =
     \<lparr> get_typed_and_scheduled_kernel = (\<lambda>s. Inr s),
       generate_code_v2 =
         (\<lambda>k. Inr \<lparr> device_code = ''void scale(float *restrict a, int const n);'',
                      device_programs = [example_knl],
                      cg_implemented_data_info = () \<rparr>),
       get_highlighted_code = (\<lambda>c. c),
       make_invoker = (\<lambda>k cg. example_invoker),
       unpack = (\<lambda>kw. kw),
       arg_to_dtype_set =
         (\<lambda>kw. set (map (\<lambda>(n, v). (n, case v of NdArray _ _ \<Rightarrow> Float32
                                                | Scalar _ \<Rightarrow> Int32)) kw)) \<rparr>"

definition example_executor :: "(dtype_set, unit, unit) executor" where
  "example_executor =
     CKernelExecutor_init example_env
       \<lparr>write_cl = WriteOff, highlight_cl = False, edit_cl = False\<rparr>
       example_target (Some example_comp) example_world"

text \<open>
  The memo key of a call with these two arguments, the kernel information that the
  executor builds for it, and the worlds after a failed first build and after the retry.
\<close>

definition example_key :: "unit kernel_info_args" where
  "example_key = Args1 {(''a'', Float32), (''n'', Int32)}"

definition example_info :: "(dtype_set, unit) kernel_info" where
  "example_info =
     \<lparr> kernel = {(''a'', Float32), (''n'', Int32)},
       c_kernels = [example_kernel],
       implemented_data_info = (),
       invoker = example_invoker \<rparr>"

definition example_failed :: world where
  "example_failed =
     \<lparr> written = [(''/tmp/tmp_loopy0/code.c'', ''void scale(float *restrict a, int const n);'')],
       spawned =
         [(''/tmp/tmp_loopy0'',
           [''gcc'', ''-std=c99'', ''-g'', ''-O3'', ''-fPIC'', ''-c'', ''/tmp/tmp_loopy0/code.c''])],
       native_calls = [], printed = [], edited = [] \<rparr>"

definition example_retried :: world where
  "example_retried =
     \<lparr> written =
         [(''/tmp/tmp_loopy0/code.c'', ''void scale(float *restrict a, int const n);''),
          (''/tmp/tmp_loopy0/code.c'', ''void scale(float *restrict a, int const n);'')],
       spawned =
         [(''/tmp/tmp_loopy0'',
           [''gcc'', ''-std=c99'', ''-g'', ''-O3'', ''-fPIC'', ''-c'', ''/tmp/tmp_loopy0/code.c'']),
          (''/tmp/tmp_loopy0'',
           [''gcc'', ''-std=c99'', ''-g'', ''-O3'', ''-fPIC'', ''-c'', ''/tmp/tmp_loopy0/code.c'']),
          (''/tmp/tmp_loopy0'',
           [''gcc'', ''-shared'', ''-shared'', ''/tmp/tmp_loopy0/code.o'', ''-o'',
            ''/tmp/tmp_loopy0/code.so''])],
       native_calls = [], printed = [], edited = [] \<rparr>"

text \<open>
  Arguments for calls of the executor: keyword arguments with an array and an
  \<^verbatim>\<open>int\<close>, others with the same dtypes, others where \<open>a\<close> is an \<^verbatim>\<open>int\<close>; what one build
  writes and starts, the native call of the example invoker, and the worlds and the
  executor after calls.
\<close>

definition example_args :: "pyval list" where
  "example_args = [NdArray 4 4096, Scalar (PyInt 4)]"

definition example_kwargs :: kwargs where
  "example_kwargs = [(''a'', NdArray 4 4096), (''n'', Scalar (PyInt 4))]"

definition example_kwargs_other :: kwargs where
  "example_kwargs_other = [(''a'', NdArray 8 8192), (''n'', Scalar (PyInt 8))]"

definition example_kwargs_int :: kwargs where
  "example_kwargs_int = [(''a'', Scalar (PyInt 1)), (''n'', Scalar (PyInt 4))]"

definition example_compile :: "(string \<times> string list) list" where
  "example_compile =
     [(''/tmp/tmp_loopy0'',
       [''gcc'', ''-std=c99'', ''-g'', ''-O3'', ''-fPIC'', ''-c'', ''/tmp/tmp_loopy0/code.c'']),
      (''/tmp/tmp_loopy0'',
       [''gcc'', ''-shared'', ''-shared'', ''/tmp/tmp_loopy0/code.o'', ''-o'',
        ''/tmp/tmp_loopy0/code.so''])]"

definition example_source :: "(string \<times> string) list" where
  "example_source =
     [(''/tmp/tmp_loopy0/code.c'', ''void scale(float *restrict a, int const n);'')]"

definition example_native_call :: "string \<times> native_arg list" where
  "example_native_call =
     (''scale'', [CCast (CPointer (CSimple ''c_float'')) 4096,
                  CInstance (CSimple ''c_int'') (PyInt 4)])"

definition example_called :: world where
  "example_called =
     \<lparr> written = example_source, spawned = example_compile,
       native_calls = [example_native_call], printed = [], edited = [] \<rparr>"

definition example_called_twice :: world where
  "example_called_twice =
     \<lparr> written = example_source, spawned = example_compile,
       native_calls = [example_native_call, example_native_call], printed = [], edited = [] \<rparr>"

definition example_rebuilt :: world where
  "example_rebuilt =
     \<lparr> written = example_source @ example_source, spawned = example_compile @ example_compile,
       native_calls = [], printed = [], edited = [] \<rparr>"

definition example_rebuilt_called :: world where
  "example_rebuilt_called =
     \<lparr> written = example_source @ example_source, spawned = example_compile @ example_compile,
       native_calls = [example_native_call, example_native_call], printed = [], edited = [] \<rparr>"

definition example_executor_built :: "(dtype_set, unit, unit) executor" where
  "example_executor_built =
     example_executor\<lparr>memo := (memo example_executor)(example_key \<mapsto> example_info)\<rparr>"

section \<open>The example kernel, evaluated\<close>

lemma example_init:
  "CompiledCKernel_init example_env example_knl example_target (Some example_comp) example_world
     = (Inr example_kernel, example_built)"
  by (simp add: CompiledCKernel_init_def build_def call_compiler_def tempname_def
      example_env_def example_knl_def example_target_def example_comp_def example_world_def
      example_kernel_def example_built_def example_decl_def compiler_init_def
      compile_args_def link_args_def visit_func_decl_def visit_arg_decl_def visit_pointer_def
      visit_const_def append_arg_def dtype_to_ctype_def ctypes_getattr_def simple_types_def
      float_types_def int_types_def address_types_def set_argtypes_def
      ckernel_visiting.extend_def ckernel.fields_def Let_def)

lemmas example_defs =
  CompiledCKernel_init_def build_def call_compiler_def tempname_def
  example_env_def flaky_env_def example_knl_def example_target_def example_comp_def
  example_world_def example_kernel_def example_built_def example_decl_def compiler_init_def
  compile_args_def link_args_def visit_func_decl_def visit_arg_decl_def visit_pointer_def
  visit_const_def append_arg_def dtype_to_ctype_def ctypes_getattr_def simple_types_def
  float_types_def int_types_def address_types_def set_argtypes_def
  ckernel_visiting.extend_def ckernel.fields_def Let_def
  kernel_info_body_def example_collaborators_def example_executor_def
  CKernelExecutor_init_def write_code_def edit_code_def
  example_info_def example_failed_def example_retried_def

lemma example_body:
  "kernel_info_body example_collaborators example_env example_executor
       {(''a'', Float32), (''n'', Int32)} example_world
     = (Inr example_info, example_built)"
  by (simp add: example_defs)

lemma example_body_failed:
  "kernel_info_body example_collaborators flaky_env example_executor
       {(''a'', Float32), (''n'', Int32)} example_world
     = (Inl CalledProcessError, example_failed)"
  by (simp add: example_defs)

lemma example_body_retried:
  "kernel_info_body example_collaborators flaky_env example_executor
       {(''a'', Float32), (''n'', Int32)} example_failed
     = (Inr example_info, example_retried)"
  by (simp add: example_defs)

lemma example_memo_empty: "memo example_executor key = None"
  by (simp add: example_executor_def CKernelExecutor_init_def)

section \<open>The compiler's argument vectors\<close>

text \<open>
  Claim C8. For every compiler configuration, \<open>compile_args\<close> is the compile flags, then
  \<^verbatim>\<open>-c\<close>, then the source path, and \<open>link_args\<close> is the link flags, then \<^verbatim>\<open>-shared\<close>, the
  object path, \<^verbatim>\<open>-o\<close> and the library path. Both are functions of the configuration and
  their arguments alone; for a configuration made by the constructor, the flags are
  those the constructor chose.
\<close>

theorem compile_args_link_args:
  "compile_args self c_fname = cflags self @ [''-c'', c_fname] \<and>
   link_args self obj_fname dll_fname
     = ldflags self @ [''-shared'', obj_fname, ''-o'', dll_fname] \<and>
   compile_args (compiler_init c cc cfl ldfl tmp) c_fname
     = or_default cfl (default_compile_flags c) @ [''-c'', c_fname] \<and>
   link_args (compiler_init c cc cfl ldfl tmp) obj_fname dll_fname
     = or_default ldfl (default_link_flags c) @ [''-shared'', obj_fname, ''-o'', dll_fname]"
  by (simp add: compile_args_def link_args_def compiler_init_def)

lemma or_default_nonempty: "d \<noteq> [] \<Longrightarrow> or_default x d \<noteq> []"
  by (cases "(x, d)" rule: or_default.cases) auto

text \<open>
  Claim C10. An empty list of compile flags, or of link flags, given to the constructor
  is replaced by the default flags of the compiler class, and no arguments of the
  constructor make a compiler without compile flags or without link flags.
\<close>

theorem empty_flags_replaced:
  "cflags (compiler_init c cc (Some []) ldfl tmp) = default_compile_flags c \<and>
   ldflags (compiler_init c cc cfl (Some []) tmp) = default_link_flags c \<and>
   cflags (compiler_init c cc cfl ldfl tmp) \<noteq> [] \<and>
   ldflags (compiler_init c cc cfl ldfl tmp) \<noteq> []"
  by (cases c) (simp_all add: compiler_init_def or_default_nonempty)

section \<open>Calling a compiled kernel\<close>

lemma zip_take_argtypes: "zip (take (length ys) xs) ys = zip xs ys"
proof (induction xs arbitrary: ys)
  case Nil
  show ?case by simp
next
  case (Cons x xs)
  show ?case by (cases ys) (simp_all add: Cons.IH)
qed

text \<open>
  Claim C9. A call with more positional arguments than the function has parameter
  types does what the call with only the first of them does: the surplus is neither
  marshalled nor passed, and raises nothing.
\<close>

theorem surplus_arguments_dropped:
  "length (fn_argtypes self) < length args \<Longrightarrow>
   CompiledCKernel_call self args w
     = CompiledCKernel_call self (take (length (fn_argtypes self)) args) w"
  by (simp add: CompiledCKernel_call_def zip_take_argtypes)

theorem surplus_arguments_dropped_witness:
  "length (fn_argtypes example_kernel)
     < length [NdArray 4 4096, Scalar (PyInt 4), Scalar (PyInt 7)] \<and>
   CompiledCKernel_call example_kernel
       [NdArray 4 4096, Scalar (PyInt 4), Scalar (PyInt 7)] example_built
     = (Inr (), example_kernel,
        example_built\<lparr>native_calls :=
          [(''scale'', [CCast (CPointer (CSimple ''c_float'')) 4096,
                        CInstance (CSimple ''c_int'') (PyInt 4)])]\<rparr>)"
  using surplus_arguments_dropped
    [of example_kernel "[NdArray 4 4096, Scalar (PyInt 4), Scalar (PyInt 7)]" example_built]
  by (simp add: example_kernel_def CompiledCKernel_call_def call_fn_def example_built_def
      int_types_def float_types_def)

lemma empty_array_pointer_type:
  "marshal_arg (NdArray 0 addr, CPointer t) = Inl TypeError"
  by simp

text \<open>
  Claim C1. The claim is that an array of size zero is replaced by a zero of the base
  type, a \<^verbatim>\<open>c_float\<close> zero for a pointer to \<^verbatim>\<open>c_float\<close>, and that the native function is
  then called. The call evaluates \<^verbatim>\<open>arg_t(0.0)\<close> with the type of the parameter, which
  for the array parameter of the example kernel is the pointer type: that is a
  \<^verbatim>\<open>TypeError\<close>, and the native function is not called.
\<close>

theorem empty_array_for_pointer_parameter:
  "CompiledCKernel_call example_kernel [NdArray 0 4096, Scalar (PyInt 0)] example_built
     = (Inl TypeError, example_kernel, example_built)"
  by (simp add: CompiledCKernel_call_def example_kernel_def)

section \<open>What the visit of a declaration appends\<close>

lemma visit_arg_decl_entry:
  "visit_arg_decl self arg =
     (case arg_info_entry (target self) arg of
        Inl e \<Rightarrow> Inl e
      | Inr x \<Rightarrow> Inr (self\<lparr>arg_info := arg_info self @ [x]\<rparr>))"
proof (cases "parameter_descriptor arg")
  case None
  then show ?thesis
    by (cases arg rule: parameter_descriptor.cases)
       (simp_all add: visit_arg_decl_def visit_const_def visit_pointer_def arg_info_entry_def)
next
  case (Some a)
  then show ?thesis
    by (cases arg rule: parameter_descriptor.cases)
       (auto simp: visit_arg_decl_def visit_const_def visit_pointer_def arg_info_entry_def
          append_arg_def split: sum.splits)
qed

lemma visit_arg_decls_entries:
  "visit_arg_decls self ds =
     (case arg_info_entries (target self) ds of
        Inl e \<Rightarrow> Inl e
      | Inr xs \<Rightarrow> Inr (self\<lparr>arg_info := arg_info self @ xs\<rparr>))"
proof (induction ds arbitrary: self)
  case Nil
  show ?case by simp
next
  case (Cons arg rest)
  show ?case
    by (simp add: visit_arg_decl_entry Cons.IH split: sum.splits)
qed

lemma arg_info_entries_Inr:
  "arg_info_entries tgt ds = Inr xs \<Longrightarrow>
   list_all2 (\<lambda>arg x. arg_info_entry tgt arg = Inr x) ds xs"
  by (induction ds arbitrary: xs) (auto split: sum.splits)

lemma arg_info_entry_Inr:
  "arg_info_entry tgt arg = Inr (n, ct) \<Longrightarrow>
   \<exists>d p. parameter_descriptor arg = Some (n, d, p) \<and> dtype_to_ctype tgt d p = Inr ct"
  by (auto simp: arg_info_entry_def split: option.splits sum.splits if_splits)


lemma dtype_to_ctype_pointer:
  "dtype_to_ctype tgt d p = Inr ct \<Longrightarrow> (\<exists>b. ct = CPointer b) = p"
  by (auto simp: dtype_to_ctype_def ctypes_getattr_def Let_def
      split: option.splits sum.splits if_splits elim: POINTER.elims)

section \<open>The native signature\<close>




text \<open>
  Claim C3, amended. The claim is that every parameter of an unsupported shape fails
  with the error for an unhandled argument declaration. The visit classifies a
  parameter as the descriptor rule says: a parameter with a descriptor is appended
  with the type of its descriptor, a pointer type exactly for a pointer parameter. A
  parameter that is neither \<^verbatim>\<open>const\<close> nor a restrict pointer raises the error for an
  unhandled argument; a \<^verbatim>\<open>const\<close> or a restrict pointer around anything else than the
  supported inner forms fails too, with an \<^verbatim>\<open>AttributeError\<close>. No declaration with a
  parameter of an unsupported shape is visited successfully.
\<close>

theorem parameter_classification:
  "visit_arg_decl self arg =
     (case parameter_descriptor arg of
        Some (n, d, p) \<Rightarrow> append_arg self n d p
      | None \<Rightarrow>
          if is_Const arg \<or> is_RestrictPointer arg then Inl AttributeError
          else Inl (UnhandledArgType arg)) \<and>
   (\<forall>n d p self'. append_arg self n d p = Inr self' \<longrightarrow>
      (\<exists>ct. self' = self\<lparr>arg_info := arg_info self @ [(n, ct)]\<rparr> \<and>
            (\<exists>b. ct = CPointer b) = p)) \<and>
   (\<forall>self'. visit_func_decl self fd = Inr self' \<longrightarrow>
      (\<forall>a \<in> set (arg_decls fd). parameter_descriptor a \<noteq> None))"
proof -
  have one: "visit_arg_decl self arg =
     (case parameter_descriptor arg of
        Some (n, d, p) \<Rightarrow> append_arg self n d p
      | None \<Rightarrow>
          if is_Const arg \<or> is_RestrictPointer arg then Inl AttributeError
          else Inl (UnhandledArgType arg))"
    by (simp add: visit_arg_decl_entry arg_info_entry_def append_arg_def
        split: option.splits sum.splits)
  have two: "\<exists>ct. self' = self\<lparr>arg_info := arg_info self @ [(n, ct)]\<rparr> \<and>
                  (\<exists>b. ct = CPointer b) = p"
    if "append_arg self n d p = Inr self'" for n d p self'
    using that dtype_to_ctype_pointer [of "target self" d p]
    by (auto simp: append_arg_def split: sum.splits)
  have three: "parameter_descriptor a \<noteq> None"
    if "visit_func_decl self fd = Inr self'" and "a \<in> set (arg_decls fd)" for self' a
  proof -
    from that(1) obtain xs where "arg_info_entries (target self) (arg_decls fd) = Inr xs"
      by (auto simp: visit_func_decl_def visit_arg_decls_entries split: sum.splits)
    then have "list_all2 (\<lambda>arg x. arg_info_entry (target self) arg = Inr x) (arg_decls fd) xs"
      by (rule arg_info_entries_Inr)
    with that(2) have "\<exists>x. arg_info_entry (target self) a = Inr x"
      by (auto simp: list_all2_conv_all_nth in_set_conv_nth)
    then show ?thesis
      by (auto simp: arg_info_entry_def split: option.splits if_splits)
  qed
  from one two three show ?thesis by blast
qed

theorem parameter_classification_witness:
  "visit_func_decl (example_kernel\<lparr>arg_info := []\<rparr>) example_decl = Inr example_kernel \<and>
   parameter_descriptor (RestrictPointer (POD Float32 ''a'')) \<noteq> None \<and>
   parameter_descriptor (Const (POD Int32 ''n'')) \<noteq> None \<and>
   append_arg (example_kernel\<lparr>arg_info := []\<rparr>) ''a'' Float32 True
     = Inr (example_kernel\<lparr>arg_info := [(''a'', CPointer (CSimple ''c_float''))]\<rparr>) \<and>
   visit_arg_decl example_kernel (POD Int32 ''n'') = Inl (UnhandledArgType (POD Int32 ''n''))"
  using parameter_classification
    [of "example_kernel\<lparr>arg_info := []\<rparr>" "POD Int32 ''n''" example_decl]
    parameter_classification [of example_kernel "POD Int32 ''n''" example_decl]
  by (simp add: example_kernel_def example_decl_def example_target_def visit_func_decl_def
      visit_arg_decl_def visit_const_def visit_pointer_def append_arg_def
      dtype_to_ctype_def ctypes_getattr_def simple_types_def float_types_def int_types_def)

text \<open>
  Claim C3 as stated fails for a \<^verbatim>\<open>const\<close> around a plain pointer: construction ends
  with an \<^verbatim>\<open>AttributeError\<close>, not with the error for an unhandled argument.
\<close>

theorem nested_shape_counterexample:
  "CompiledCKernel_init example_env
       (example_knl\<lparr>ast_decls :=
          [\<lparr>subdecl = Value ''void'' ''scale'',
            arg_decls = [Const (Pointer (POD Float32 ''a''))]\<rparr>]\<rparr>)
       example_target (Some example_comp) example_world
     = (Inl AttributeError, example_built) \<and>
   AttributeError \<noteq> UnhandledArgType (Const (Pointer (POD Float32 ''a'')))"
  by (simp add: CompiledCKernel_init_def build_def call_compiler_def tempname_def
      example_env_def example_knl_def example_target_def example_comp_def example_world_def
      example_built_def compiler_init_def
      compile_args_def link_args_def visit_func_decl_def visit_arg_decl_def visit_pointer_def
      visit_const_def Let_def)


section \<open>Construction of a compiled kernel\<close>

lemma CompiledCKernel_init_entries:
  "CompiledCKernel_init ev k tgt cmp w =
     (let src = ast_str k;
          cmp' = (case cmp of Some c \<Rightarrow> c | None \<Rightarrow> new_compiler ev CCompiler None None None w)
      in case build ev cmp' src w of
           (Inl e, w') \<Rightarrow> (Inl e, w')
         | (Inr lib, w') \<Rightarrow>
             (case ast_decls k of
                [] \<Rightarrow> (Inl IndexError, w')
              | fd # _ \<Rightarrow>
                  (case arg_info_entries tgt (arg_decls fd) of
                     Inl e \<Rightarrow> (Inl e, w')
                   | Inr xs \<Rightarrow>
                       (case decl_typename (subdecl fd) of
                          Inl e \<Rightarrow> (Inl e, w')
                        | Inr rt \<Rightarrow>
                            if rt = ''void'' then
                              (if dp_name k \<in> set (symbols lib) then
                                 (if list_all is_type (map snd xs) then
                                    (Inr \<lparr>target = tgt, knl = k, code = src, comp = cmp',
                                          dll = lib, func_decl = fd, arg_info = xs,
                                          kname = dp_name k, restype = None, fn_restype = None,
                                          fn_argtypes = map snd xs\<rparr>, w')
                                  else (Inl TypeError, w'))
                               else (Inl AttributeError, w'))
                            else (Inl (UnhandledRestype rt), w')))))"
  by (simp add: CompiledCKernel_init_def Let_def visit_func_decl_def visit_arg_decls_entries
      set_argtypes_def ckernel_visiting.extend_def ckernel.fields_def
      split: prod.splits sum.splits list.splits)

text \<open>
  Claim C4. Take a device program whose construction succeeds once the return type
  of its first declaration is made \<^verbatim>\<open>void\<close>. Its construction fails if and only if
  the return type name of the declaration is not \<^verbatim>\<open>void\<close>; for a return type name other
  than \<^verbatim>\<open>void\<close> the failure is the error for an unhandled return type; and for \<^verbatim>\<open>void\<close>
  the kernel is constructed with the return type \<^verbatim>\<open>None\<close>.
\<close>

theorem return_type_gate:
  assumes "ast_decls k = fd # rest"
    and "CompiledCKernel_init ev (k\<lparr>ast_decls := fd\<lparr>subdecl := Value ''void'' f\<rparr> # rest\<rparr>)
           tgt cmp w = (Inr valid, w')"
  shows "((\<exists>e. fst (CompiledCKernel_init ev k tgt cmp w) = Inl e)
            \<longleftrightarrow> decl_typename (subdecl fd) \<noteq> Inr ''void'') \<and>
         (\<forall>rt. decl_typename (subdecl fd) = Inr rt \<and> rt \<noteq> ''void'' \<longrightarrow>
            fst (CompiledCKernel_init ev k tgt cmp w) = Inl (UnhandledRestype rt)) \<and>
         (decl_typename (subdecl fd) = Inr ''void'' \<longrightarrow>
            (\<exists>self. fst (CompiledCKernel_init ev k tgt cmp w) = Inr self \<and>
                    restype self = None \<and> fn_restype self = None))"
  using assms
  by (auto simp: CompiledCKernel_init_entries Let_def
      split: prod.splits sum.splits list.splits if_splits)


theorem return_type_gate_witness:
  "ast_decls (example_knl\<lparr>ast_decls := [example_decl\<lparr>subdecl := Value ''int'' ''scale''\<rparr>]\<rparr>)
     = example_decl\<lparr>subdecl := Value ''int'' ''scale''\<rparr> # [] \<and>
   CompiledCKernel_init example_env example_knl example_target (Some example_comp) example_world
     = (Inr example_kernel, example_built) \<and>
   decl_typename (subdecl (example_decl\<lparr>subdecl := Value ''int'' ''scale''\<rparr>)) \<noteq> Inr ''void'' \<and>
   fst (CompiledCKernel_init example_env
          (example_knl\<lparr>ast_decls := [example_decl\<lparr>subdecl := Value ''int'' ''scale''\<rparr>]\<rparr>)
          example_target (Some example_comp) example_world)
     = Inl (UnhandledRestype ''int'')"
  using return_type_gate
    [of "example_knl\<lparr>ast_decls := [example_decl\<lparr>subdecl := Value ''int'' ''scale''\<rparr>]\<rparr>"
        "example_decl\<lparr>subdecl := Value ''int'' ''scale''\<rparr>" "[]"
        example_env "''scale''" example_target "Some example_comp" example_world
        example_kernel example_built]
    example_init
  by (simp add: example_knl_def example_decl_def)

lemma marshal_args_Inr:
  "marshal_args ps acc = Inr out \<Longrightarrow>
   \<exists>new. out = acc @ new \<and> length new = length ps \<and>
         (\<forall>i < length ps. marshal_arg (ps ! i) = Inr (new ! i))"
proof (induction ps arbitrary: acc)
  case Nil
  then show ?case by simp
next
  case (Cons p ps)
  from Cons.prems obtain a where a: "marshal_arg p = Inr a"
    and rest: "marshal_args ps (acc @ [a]) = Inr out"
    by (auto split: sum.splits)
  from Cons.IH [OF rest] obtain new where new: "out = (acc @ [a]) @ new"
    "length new = length ps" "\<forall>i < length ps. marshal_arg (ps ! i) = Inr (new ! i)"
    by blast
  have "\<forall>i < length (p # ps). marshal_arg ((p # ps) ! i) = Inr ((a # new) ! i)"
    using a new(3) by (auto simp: nth_Cons split: nat.splits)
  with new(1,2) show ?case
    by (intro exI [of _ "a # new"]) simp
qed

lemma call_native:
  assumes "CompiledCKernel_call self args w1 = (Inr r, self', w2)"
  shows "\<exists>args'. w2 = w1\<lparr>native_calls := native_calls w1 @ [(kname self, args')]\<rparr> \<and>
           length args' = length (fn_argtypes self) \<and>
           (\<forall>i < length args'. marshal_arg (args ! i, fn_argtypes self ! i) = Inr (args' ! i))"
proof -
  from assms obtain args' where m: "marshal_args (zip args (fn_argtypes self)) [] = Inr args'"
    and c: "call_fn self args' w1 = (Inr r, w2)"
    by (auto simp: CompiledCKernel_call_def split: sum.splits prod.splits)
  from marshal_args_Inr [OF m] have len: "length args' = length (zip args (fn_argtypes self))"
    and each: "\<forall>i < length (zip args (fn_argtypes self)).
                 marshal_arg (zip args (fn_argtypes self) ! i) = Inr (args' ! i)"
    by auto
  from c have full: "\<not> length args' < length (fn_argtypes self)"
    and w2: "w2 = w1\<lparr>native_calls := native_calls w1 @ [(kname self, args')]\<rparr>"
    by (auto simp: call_fn_def split: if_splits)
  from len full have len': "length args' = length (fn_argtypes self)"
    by simp
  from each len len' have "\<forall>i < length args'.
      marshal_arg (args ! i, fn_argtypes self ! i) = Inr (args' ! i)"
    by simp
  with w2 len' show ?thesis by blast
qed

lemma call_failed:
  assumes "CompiledCKernel_call self args w1 = (Inl e, self', w2)"
  shows "w2 = w1"
proof (cases "marshal_args (zip args (fn_argtypes self)) []")
  case (Inl e')
  with assms show ?thesis
    by (simp add: CompiledCKernel_call_def)
next
  case (Inr args')
  show ?thesis
  proof (cases "length args' < length (fn_argtypes self)")
    case True
    with Inr assms show ?thesis
      by (simp add: CompiledCKernel_call_def call_fn_def)
  next
    case False
    with Inr assms show ?thesis
      by (simp add: CompiledCKernel_call_def call_fn_def)
  qed
qed

lemma call_depends_on_fn:
  assumes "fn_argtypes s = fn_argtypes self" and "kname s = kname self"
  shows "fst (CompiledCKernel_call s args w) = fst (CompiledCKernel_call self args w) \<and>
         snd (snd (CompiledCKernel_call s args w)) = snd (snd (CompiledCKernel_call self args w))"
  using assms
  by (simp add: CompiledCKernel_call_def call_fn_def split: sum.splits prod.splits)


lemma visit_keeps_fn:
  fixes self :: ckernel
  shows "visit_arg_decls self ds = Inr s \<Longrightarrow>
         fn_argtypes s = fn_argtypes self \<and> fn_restype s = fn_restype self \<and>
         kname s = kname self"
  by (auto simp: visit_arg_decls_entries split: sum.splits)

text \<open>
  Claim C7. A kernel that has been constructed has the return type \<^verbatim>\<open>None\<close> and a
  list of parameter types that is the list of the types in \<^verbatim>\<open>_arg_info\<close>: as many as
  the declaration has parameters, in their order, each the type of the descriptor of
  its parameter. Every call returns the kernel as it was. A call that succeeds has
  called the native function once, with as many arguments as there are parameter
  types, the argument at each position marshalled by the parameter type at that
  position; a call that fails has not called it. What a call does depends on the
  kernel through these parameter types and the name alone, and neither \<^verbatim>\<open>_append_arg\<close>
  nor a further visit changes the return type, the parameter types or the name.
\<close>

theorem signature_fixed_at_construction:
  assumes "CompiledCKernel_init ev k tgt cmp w = (Inr self, w')"
  shows "(\<exists>fd rest. ast_decls k = fd # rest \<and> func_decl self = fd \<and>
            length (fn_argtypes self) = length (arg_decls fd) \<and>
            list_all2 (\<lambda>arg (n, ct). \<exists>d p. parameter_descriptor arg = Some (n, d, p) \<and>
                                       dtype_to_ctype tgt d p = Inr ct)
              (arg_decls fd) (arg_info self)) \<and>
         fn_restype self = None \<and>
         fn_argtypes self = map snd (arg_info self) \<and>
         (\<forall>args w1. fst (snd (CompiledCKernel_call self args w1)) = self) \<and>
         (\<forall>args w1 r s w2. CompiledCKernel_call self args w1 = (Inr r, s, w2) \<longrightarrow>
            (\<exists>args'. w2 = w1\<lparr>native_calls := native_calls w1 @ [(kname self, args')]\<rparr> \<and>
               length args' = length (fn_argtypes self) \<and>
               (\<forall>i < length args'.
                  marshal_arg (args ! i, fn_argtypes self ! i) = Inr (args' ! i)))) \<and>
         (\<forall>args w1 e s w2. CompiledCKernel_call self args w1 = (Inl e, s, w2) \<longrightarrow> w2 = w1) \<and>
         (\<forall>s args w1. fn_argtypes s = fn_argtypes self \<and> kname s = kname self \<longrightarrow>
            fst (CompiledCKernel_call s args w1) = fst (CompiledCKernel_call self args w1) \<and>
            snd (snd (CompiledCKernel_call s args w1))
              = snd (snd (CompiledCKernel_call self args w1))) \<and>
         (\<forall>n d p s. append_arg self n d p = Inr s \<longrightarrow>
            fn_argtypes s = fn_argtypes self \<and> fn_restype s = fn_restype self \<and>
            kname s = kname self) \<and>
         (\<forall>fd' s. visit_func_decl self fd' = Inr s \<longrightarrow>
            fn_argtypes s = fn_argtypes self \<and> fn_restype s = fn_restype self \<and>
            kname s = kname self)"
proof -
  from assms obtain fd rest xs where
    decls: "ast_decls k = fd # rest" and
    entries: "arg_info_entries tgt (arg_decls fd) = Inr xs" and
    fields: "func_decl self = fd" "arg_info self = xs" "fn_argtypes self = map snd xs"
      "fn_restype self = None"
    by (auto simp: CompiledCKernel_init_entries Let_def
        split: prod.splits sum.splits list.splits if_splits)
  from entries have all2: "list_all2 (\<lambda>arg x. arg_info_entry tgt arg = Inr x) (arg_decls fd) xs"
    by (rule arg_info_entries_Inr)
  then have len: "length (arg_decls fd) = length xs"
    by (rule list_all2_lengthD)
  from all2 have descr:
    "list_all2 (\<lambda>arg (n, ct). \<exists>d p. parameter_descriptor arg = Some (n, d, p) \<and>
                                 dtype_to_ctype tgt d p = Inr ct) (arg_decls fd) xs"
    by (rule list_all2_mono) (auto dest: arg_info_entry_Inr)
  have first: "\<exists>fd rest. ast_decls k = fd # rest \<and> func_decl self = fd \<and>
            length (fn_argtypes self) = length (arg_decls fd) \<and>
            list_all2 (\<lambda>arg (n, ct). \<exists>d p. parameter_descriptor arg = Some (n, d, p) \<and>
                                       dtype_to_ctype tgt d p = Inr ct)
              (arg_decls fd) (arg_info self)"
    using decls fields len descr by (intro exI [of _ fd] exI [of _ rest]) simp
  have argt: "fn_argtypes self = map snd (arg_info self)"
    using fields by simp
  have call: "fst (snd (CompiledCKernel_call self args w1)) = self" for args w1
    by (simp add: CompiledCKernel_call_def split: sum.splits prod.splits)
  have native: "\<exists>args'. w2 = w1\<lparr>native_calls := native_calls w1 @ [(kname self, args')]\<rparr> \<and>
               length args' = length (fn_argtypes self) \<and>
               (\<forall>i < length args'.
                  marshal_arg (args ! i, fn_argtypes self ! i) = Inr (args' ! i))"
    if "CompiledCKernel_call self args w1 = (Inr r, s, w2)" for args w1 r s w2
    using that by (rule call_native)
  have failed: "w2 = w1"
    if "CompiledCKernel_call self args w1 = (Inl e, s, w2)" for args w1 e s w2
    using that by (rule call_failed)
  have only: "fst (CompiledCKernel_call s args w1) = fst (CompiledCKernel_call self args w1) \<and>
            snd (snd (CompiledCKernel_call s args w1))
              = snd (snd (CompiledCKernel_call self args w1))"
    if "fn_argtypes s = fn_argtypes self \<and> kname s = kname self" for s args w1
    by (rule call_depends_on_fn) (simp_all add: that)
  have app: "fn_argtypes s = fn_argtypes self \<and> fn_restype s = fn_restype self \<and>
             kname s = kname self"
    if "append_arg self n d p = Inr s" for n d p s
    using that by (auto simp: append_arg_def split: sum.splits)
  have vis: "fn_argtypes s = fn_argtypes self \<and> fn_restype s = fn_restype self \<and>
             kname s = kname self"
    if "visit_func_decl self fd' = Inr s" for fd' s
    using that by (simp add: visit_func_decl_def visit_keeps_fn)
  show ?thesis
    apply (intro conjI allI impI)
    subgoal by (rule first)
    subgoal by (rule fields(4))
    subgoal by (rule argt)
    subgoal by (rule call)
    subgoal by (erule native)
    subgoal by (erule failed)
    subgoal using only by blast
    subgoal using only by blast
    subgoal using app by blast
    subgoal using app by blast
    subgoal using app by blast
    subgoal using vis by blast
    subgoal using vis by blast
    subgoal using vis by blast
    done
qed

theorem signature_fixed_at_construction_witness:
  "CompiledCKernel_init example_env example_knl example_target (Some example_comp) example_world
     = (Inr example_kernel, example_built) \<and>
   length (fn_argtypes example_kernel) = length (arg_decls example_decl) \<and>
   fn_argtypes example_kernel = map snd (arg_info example_kernel) \<and>
   fn_restype example_kernel = None \<and>
   CompiledCKernel_call example_kernel [NdArray 4 4096, Scalar (PyInt 4)] example_built
     = (Inr (), example_kernel,
        example_built\<lparr>native_calls :=
          [(''scale'', [CCast (CPointer (CSimple ''c_float'')) 4096,
                        CInstance (CSimple ''c_int'') (PyInt 4)])]\<rparr>) \<and>
   CompiledCKernel_call example_kernel [Scalar (PyInt 4)] example_built
     = (Inl TypeError, example_kernel, example_built) \<and>
   append_arg example_kernel ''m'' Int32 False
     = Inr (example_kernel\<lparr>arg_info := arg_info example_kernel @ [(''m'', CSimple ''c_int'')]\<rparr>) \<and>
   CompiledCKernel_call
       (example_kernel\<lparr>arg_info := arg_info example_kernel @ [(''m'', CSimple ''c_int'')]\<rparr>)
       [NdArray 4 4096, Scalar (PyInt 4)] example_built
     = (Inr (),
        example_kernel\<lparr>arg_info := arg_info example_kernel @ [(''m'', CSimple ''c_int'')]\<rparr>,
        example_built\<lparr>native_calls :=
          [(''scale'', [CCast (CPointer (CSimple ''c_float'')) 4096,
                        CInstance (CSimple ''c_int'') (PyInt 4)])]\<rparr>)"
  using signature_fixed_at_construction [OF example_init] example_init
  by (simp add: example_knl_def example_kernel_def example_decl_def example_built_def
      CompiledCKernel_call_def call_fn_def append_arg_def dtype_to_ctype_def example_target_def
      ctypes_getattr_def simple_types_def int_types_def float_types_def address_types_def)

section \<open>The memoized kernel information\<close>

lemma kernel_info_memo_miss:
  "memo self key = None \<Longrightarrow>
   kernel_info_memo cb ev self key w =
     (case kernel_info_body cb ev self (arg_to_dtype_set_of key) w of
        (Inl e, w') \<Rightarrow> (Inl e, self, w')
      | (Inr r, w') \<Rightarrow> (Inr r, self\<lparr>memo := (memo self)(key \<mapsto> r)\<rparr>, w'))"
  by (simp add: kernel_info_memo_def)

lemma CKernelExecutor_call_memo:
  assumes "CKernelExecutor_call cb ev self args kw w = (r, self', w')"
  shows "\<forall>key. key \<noteq> Args1 (arg_to_dtype_set cb (unpack cb kw)) \<longrightarrow>
           memo self' key = memo self key"
  using assms
  by (auto simp: CKernelExecutor_call_def kernel_info_memo_def Let_def
      split: option.splits prod.splits sum.splits)

lemma CKernelExecutor_call_hit:
  assumes "memo self (Args1 (arg_to_dtype_set cb (unpack cb kw))) = Some ki"
  shows "CKernelExecutor_call cb ev self args kw w =
           (case invoker ki (c_kernels ki) args (unpack cb kw) w of
              (r, w') \<Rightarrow> (r, self, w'))"
  using assms by (simp add: CKernelExecutor_call_def kernel_info_memo_def Let_def)

lemma CKernelExecutor_call_miss:
  assumes "memo self (Args1 (arg_to_dtype_set cb (unpack cb kw))) = None"
  shows "CKernelExecutor_call cb ev self args kw w =
           (case kernel_info_body cb ev self (arg_to_dtype_set cb (unpack cb kw)) w of
              (Inl e, w') \<Rightarrow> (Inl e, self, w')
            | (Inr ki, w') \<Rightarrow>
                (case invoker ki (c_kernels ki) args (unpack cb kw) w' of
                   (r, w'') \<Rightarrow>
                     (r, self\<lparr>memo := (memo self)
                           (Args1 (arg_to_dtype_set cb (unpack cb kw)) \<mapsto> ki)\<rparr>, w'')))"
  using assms
  by (simp add: CKernelExecutor_call_def kernel_info_memo_def Let_def split: prod.splits sum.splits)

text \<open>
  Claim C5, amended. The claim is that the kernel information is memoized by the pair
  of the dtype signature and the keyword signature. It is memoized by the positional
  arguments of the request, and a call of the executor passes the dtype signature
  alone. After a call of the executor that has left kernel information for its dtype
  signature, every call whose keyword arguments give the same dtype signature, whatever
  they bind, only runs the invoker on the compiled kernels of that kernel information
  and builds nothing; a call with another dtype signature, for which the executor had
  no entry, runs the body again, and stores what it built.
\<close>

theorem kernel_info_keyed_by_arguments:
  assumes "CKernelExecutor_call cb ev self args1 kw1 w = (r1, self1, w1)"
    and "memo self1 (Args1 (arg_to_dtype_set cb (unpack cb kw1))) = Some ki"
  shows "(\<forall>args2 kw2 w2.
            arg_to_dtype_set cb (unpack cb kw2) = arg_to_dtype_set cb (unpack cb kw1) \<longrightarrow>
            CKernelExecutor_call cb ev self1 args2 kw2 w2 =
              (case invoker ki (c_kernels ki) args2 (unpack cb kw2) w2 of
                 (r, w3) \<Rightarrow> (r, self1, w3))) \<and>
         (\<forall>args2 kw2 w2.
            arg_to_dtype_set cb (unpack cb kw2) \<noteq> arg_to_dtype_set cb (unpack cb kw1) \<and>
            memo self (Args1 (arg_to_dtype_set cb (unpack cb kw2))) = None \<longrightarrow>
            CKernelExecutor_call cb ev self1 args2 kw2 w2 =
              (case kernel_info_body cb ev self1 (arg_to_dtype_set cb (unpack cb kw2)) w2 of
                 (Inl e, w3) \<Rightarrow> (Inl e, self1, w3)
               | (Inr ki2, w3) \<Rightarrow>
                   (case invoker ki2 (c_kernels ki2) args2 (unpack cb kw2) w3 of
                      (r, w4) \<Rightarrow>
                        (r, self1\<lparr>memo := (memo self1)
                              (Args1 (arg_to_dtype_set cb (unpack cb kw2)) \<mapsto> ki2)\<rparr>, w4)))) \<and>
         (\<forall>key w2. kernel_info_memo cb ev self1 key w2 =
            (case memo self1 key of
               Some r \<Rightarrow> (Inr r, self1, w2)
             | None \<Rightarrow>
                 (case kernel_info_body cb ev self1 (arg_to_dtype_set_of key) w2 of
                    (Inl e, w3) \<Rightarrow> (Inl e, self1, w3)
                  | (Inr r, w3) \<Rightarrow> (Inr r, self1\<lparr>memo := (memo self1)(key \<mapsto> r)\<rparr>, w3))))"
proof (intro conjI allI impI)
  fix args2 kw2 w2
  assume "arg_to_dtype_set cb (unpack cb kw2) = arg_to_dtype_set cb (unpack cb kw1)"
  with assms(2) have "memo self1 (Args1 (arg_to_dtype_set cb (unpack cb kw2))) = Some ki"
    by simp
  then show "CKernelExecutor_call cb ev self1 args2 kw2 w2 =
              (case invoker ki (c_kernels ki) args2 (unpack cb kw2) w2 of
                 (r, w3) \<Rightarrow> (r, self1, w3))"
    by (rule CKernelExecutor_call_hit)
next
  fix args2 kw2 w2
  assume other: "arg_to_dtype_set cb (unpack cb kw2) \<noteq> arg_to_dtype_set cb (unpack cb kw1) \<and>
            memo self (Args1 (arg_to_dtype_set cb (unpack cb kw2))) = None"
  then have "Args1 (arg_to_dtype_set cb (unpack cb kw2))
               \<noteq> (Args1 (arg_to_dtype_set cb (unpack cb kw1)) :: 'c kernel_info_args)"
    by simp
  with CKernelExecutor_call_memo [OF assms(1)] other
  have "memo self1 (Args1 (arg_to_dtype_set cb (unpack cb kw2))) = None"
    by metis
  then show "CKernelExecutor_call cb ev self1 args2 kw2 w2 =
              (case kernel_info_body cb ev self1 (arg_to_dtype_set cb (unpack cb kw2)) w2 of
                 (Inl e, w3) \<Rightarrow> (Inl e, self1, w3)
               | (Inr ki2, w3) \<Rightarrow>
                   (case invoker ki2 (c_kernels ki2) args2 (unpack cb kw2) w3 of
                      (r, w4) \<Rightarrow>
                        (r, self1\<lparr>memo := (memo self1)
                              (Args1 (arg_to_dtype_set cb (unpack cb kw2)) \<mapsto> ki2)\<rparr>, w4)))"
    by (rule CKernelExecutor_call_miss)
next
  fix key w2
  show "kernel_info_memo cb ev self1 key w2 =
            (case memo self1 key of
               Some r \<Rightarrow> (Inr r, self1, w2)
             | None \<Rightarrow>
                 (case kernel_info_body cb ev self1 (arg_to_dtype_set_of key) w2 of
                    (Inl e, w3) \<Rightarrow> (Inl e, self1, w3)
                  | (Inr r, w3) \<Rightarrow> (Inr r, self1\<lparr>memo := (memo self1)(key \<mapsto> r)\<rparr>, w3)))"
    by (simp add: kernel_info_memo_def)
qed


text \<open>
  Claim C6. A request for kernel information that fails leaves the executor as it
  was, with no entry for the key; the next request with the same key runs the body
  again and stores its result only if it succeeds.
\<close>

theorem failed_build_not_cached:
  assumes "kernel_info_memo cb ev self key w = (Inl e, self', w')"
  shows "self' = self \<and> memo self' key = None \<and>
         (\<forall>w2. kernel_info_memo cb ev self' key w2 =
            (case kernel_info_body cb ev self' (arg_to_dtype_set_of key) w2 of
               (Inl e2, w3) \<Rightarrow> (Inl e2, self', w3)
             | (Inr r, w3) \<Rightarrow> (Inr r, self'\<lparr>memo := (memo self')(key \<mapsto> r)\<rparr>, w3)))"
proof -
  from assms have same: "self' = self" and none: "memo self key = None"
    by (auto simp: kernel_info_memo_def split: option.splits prod.splits sum.splits)
  from none show ?thesis
    unfolding same by (simp add: kernel_info_memo_miss)
qed


section \<open>The example executor, evaluated\<close>

lemma example_init_any:
  "CompiledCKernel_init example_env example_knl example_target (Some example_comp) w
     = (Inr example_kernel,
        w\<lparr>written := written w @ example_source, spawned := spawned w @ example_compile\<rparr>)"
  by (simp add: CompiledCKernel_init_def build_def call_compiler_def tempname_def
      example_env_def example_knl_def example_target_def example_comp_def
      example_kernel_def example_decl_def compiler_init_def
      compile_args_def link_args_def visit_func_decl_def visit_arg_decl_def visit_pointer_def
      visit_const_def append_arg_def dtype_to_ctype_def ctypes_getattr_def simple_types_def
      float_types_def int_types_def address_types_def set_argtypes_def
      ckernel_visiting.extend_def ckernel.fields_def Let_def example_source_def
      example_compile_def)

lemma example_executor_fields:
  "compiler example_executor = example_comp"
  "ktarget example_executor = example_target"
  "options example_executor = \<lparr>write_cl = WriteOff, highlight_cl = False, edit_cl = False\<rparr>"
  by (simp_all add: example_executor_def CKernelExecutor_init_def)

lemma example_body_any:
  assumes "compiler self = example_comp" and "ktarget self = example_target"
    and "options self = \<lparr>write_cl = WriteOff, highlight_cl = False, edit_cl = False\<rparr>"
  shows "kernel_info_body example_collaborators example_env self s w
     = (Inr (example_info\<lparr>kernel := s\<rparr>),
        w\<lparr>written := written w @ example_source, spawned := spawned w @ example_compile\<rparr>)"
  by (simp add: kernel_info_body_def example_collaborators_def assms
      write_code_def edit_code_def example_init_any example_info_def)

lemma example_invoker_call:
  "example_invoker [example_kernel] example_args kw w
     = (Inr [], w\<lparr>native_calls := native_calls w @ [example_native_call]\<rparr>)"
  by (simp add: example_invoker_def CompiledCKernel_call_def call_fn_def example_kernel_def
      example_args_def example_native_call_def int_types_def float_types_def)

lemma example_signature:
  "arg_to_dtype_set example_collaborators (unpack example_collaborators example_kwargs)
     = {(''a'', Float32), (''n'', Int32)}"
  "arg_to_dtype_set example_collaborators (unpack example_collaborators example_kwargs_other)
     = {(''a'', Float32), (''n'', Int32)}"
  "arg_to_dtype_set example_collaborators (unpack example_collaborators example_kwargs_int)
     = {(''a'', Int32), (''n'', Int32)}"
  by (simp_all add: example_collaborators_def example_kwargs_def example_kwargs_other_def
      example_kwargs_int_def)


lemma example_built_eq:
  "example_built =
     \<lparr> written = example_source, spawned = example_compile,
       native_calls = [], printed = [], edited = [] \<rparr>"
  by (simp add: example_built_def example_source_def example_compile_def)

lemma example_int_signature:
  "{(''a'', Int32), (''n'', Int32)} \<noteq> {(''a'', Float32), (''n'', Int32)}"
proof
  assume eq: "{(''a'', Int32), (''n'', Int32)} = {(''a'', Float32), (''n'', Int32)}"
  have "(''a'', Int32) \<in> {(''a'', Int32), (''n'', Int32)}"
    by (rule insertI1)
  then have "(''a'', Int32) \<in> {(''a'', Float32), (''n'', Int32)}"
    unfolding eq .
  then show False by simp
qed

lemma example_info_fields:
  "invoker example_info = example_invoker" "c_kernels example_info = [example_kernel]"
  "invoker (example_info\<lparr>kernel := s\<rparr>) = example_invoker"
  "c_kernels (example_info\<lparr>kernel := s\<rparr>) = [example_kernel]"
  "example_info\<lparr>kernel := {(''a'', Float32), (''n'', Int32)}\<rparr> = example_info"
  by (simp_all add: example_info_def)

lemma example_first_call:
  "CKernelExecutor_call example_collaborators example_env example_executor
       example_args example_kwargs example_world
     = (Inr [], example_executor_built, example_called)"
  unfolding CKernelExecutor_call_miss [OF example_memo_empty] example_signature
    example_body_any [OF example_executor_fields]
  by (simp add: example_info_fields example_invoker_call example_executor_built_def
      example_key_def example_called_def example_world_def)

lemma example_stored:
  "memo example_executor_built
     (Args1 (arg_to_dtype_set example_collaborators (unpack example_collaborators example_kwargs)))
     = Some example_info"
  unfolding example_signature by (simp add: example_executor_built_def example_key_def)

lemma example_executor_built_fields:
  "compiler example_executor_built = example_comp"
  "ktarget example_executor_built = example_target"
  "options example_executor_built
     = \<lparr>write_cl = WriteOff, highlight_cl = False, edit_cl = False\<rparr>"
  by (simp_all add: example_executor_built_def example_executor_fields)


lemma example_same_signature:
  "arg_to_dtype_set example_collaborators (unpack example_collaborators example_kwargs_other)
     = arg_to_dtype_set example_collaborators (unpack example_collaborators example_kwargs)"
  by (simp only: example_signature)

lemma example_other_signature:
  "arg_to_dtype_set example_collaborators (unpack example_collaborators example_kwargs_int)
     \<noteq> arg_to_dtype_set example_collaborators (unpack example_collaborators example_kwargs)"
  unfolding example_signature by (rule example_int_signature)

lemma example_failed_request:
  "kernel_info_memo example_collaborators flaky_env example_executor example_key example_world
     = (Inl CalledProcessError, example_executor, example_failed)"
  unfolding kernel_info_memo_miss [OF example_memo_empty]
  by (simp add: example_key_def example_body_failed)

theorem kernel_info_keyed_by_arguments_witness:
  "CKernelExecutor_call example_collaborators example_env example_executor
       example_args example_kwargs example_world
     = (Inr [], example_executor_built, example_called) \<and>
   memo example_executor_built
     (Args1 (arg_to_dtype_set example_collaborators (unpack example_collaborators example_kwargs)))
     = Some example_info \<and>
   arg_to_dtype_set example_collaborators (unpack example_collaborators example_kwargs_other)
     = arg_to_dtype_set example_collaborators (unpack example_collaborators example_kwargs) \<and>
   CKernelExecutor_call example_collaborators example_env example_executor_built
       example_args example_kwargs_other example_called
     = (Inr [], example_executor_built, example_called_twice) \<and>
   spawned example_called_twice = spawned example_called \<and>
   arg_to_dtype_set example_collaborators (unpack example_collaborators example_kwargs_int)
     \<noteq> arg_to_dtype_set example_collaborators (unpack example_collaborators example_kwargs) \<and>
   memo example_executor
     (Args1 (arg_to_dtype_set example_collaborators
               (unpack example_collaborators example_kwargs_int))) = None \<and>
   CKernelExecutor_call example_collaborators example_env example_executor_built
       example_args example_kwargs_int example_called
     = (Inr [],
        example_executor_built\<lparr>memo := (memo example_executor_built)
          (Args1 {(''a'', Int32), (''n'', Int32)} \<mapsto>
             example_info\<lparr>kernel := {(''a'', Int32), (''n'', Int32)}\<rparr>)\<rparr>,
        example_rebuilt_called) \<and>
   spawned example_rebuilt_called = spawned example_called @ example_compile"
proof -
  note keyed = kernel_info_keyed_by_arguments [OF example_first_call example_stored]
  have "CKernelExecutor_call example_collaborators example_env example_executor_built
          example_args example_kwargs_other example_called
        = (case invoker example_info (c_kernels example_info) example_args
                  (unpack example_collaborators example_kwargs_other) example_called of
             (r, w3) \<Rightarrow> (r, example_executor_built, w3))"
    by (rule keyed [THEN conjunct1, rule_format, OF example_same_signature])
  then have same: "CKernelExecutor_call example_collaborators example_env example_executor_built
          example_args example_kwargs_other example_called
        = (Inr [], example_executor_built, example_called_twice)"
    by (simp add: example_info_fields example_invoker_call example_called_def
        example_called_twice_def)
  have "CKernelExecutor_call example_collaborators example_env example_executor_built
          example_args example_kwargs_int example_called
        = (case kernel_info_body example_collaborators example_env example_executor_built
                  (arg_to_dtype_set example_collaborators
                     (unpack example_collaborators example_kwargs_int)) example_called of
             (Inl e, w3) \<Rightarrow> (Inl e, example_executor_built, w3)
           | (Inr ki2, w3) \<Rightarrow>
               (case invoker ki2 (c_kernels ki2) example_args
                       (unpack example_collaborators example_kwargs_int) w3 of
                  (r, w4) \<Rightarrow>
                    (r, example_executor_built\<lparr>memo := (memo example_executor_built)
                          (Args1 (arg_to_dtype_set example_collaborators
                                    (unpack example_collaborators example_kwargs_int))
                             \<mapsto> ki2)\<rparr>, w4)))"
    by (rule keyed [THEN conjunct2, THEN conjunct1, rule_format,
          OF conjI [OF example_other_signature example_memo_empty]])
  then have other: "CKernelExecutor_call example_collaborators example_env example_executor_built
          example_args example_kwargs_int example_called
     = (Inr [],
        example_executor_built\<lparr>memo := (memo example_executor_built)
          (Args1 {(''a'', Int32), (''n'', Int32)} \<mapsto>
             example_info\<lparr>kernel := {(''a'', Int32), (''n'', Int32)}\<rparr>)\<rparr>,
        example_rebuilt_called)"
    unfolding example_signature example_body_any [OF example_executor_built_fields]
    by (simp add: example_info_fields example_invoker_call example_called_def
        example_rebuilt_called_def)
  have logs: "spawned example_called_twice = spawned example_called"
    "spawned example_rebuilt_called = spawned example_called @ example_compile"
    by (simp_all add: example_called_def example_called_twice_def example_rebuilt_called_def)
  from example_first_call example_stored example_same_signature same example_other_signature
    example_memo_empty other logs
  show ?thesis by (intro conjI)
qed

text \<open>
  Claim C5 as stated fails in both directions. The requests \<^verbatim>\<open>kernel_info()\<close> and
  \<^verbatim>\<open>kernel_info(frozenset())\<close> have the same dtype signature and the same keyword
  signature, and the second builds again. Two calls of the executor with keyword
  arguments that bind other values of the same dtypes share one entry.
\<close>

theorem kernel_info_not_keyed_by_pair:
  "arg_to_dtype_set_of (Args0 :: unit kernel_info_args)
     = arg_to_dtype_set_of (Args1 {} :: unit kernel_info_args) \<and>
   kernel_info_memo example_collaborators example_env example_executor Args0 example_world
     = (Inr (example_info\<lparr>kernel := {}\<rparr>),
        example_executor\<lparr>memo := (memo example_executor)
          (Args0 \<mapsto> example_info\<lparr>kernel := {}\<rparr>)\<rparr>,
        example_built) \<and>
   kernel_info_memo example_collaborators example_env
       (example_executor\<lparr>memo := (memo example_executor)
          (Args0 \<mapsto> example_info\<lparr>kernel := {}\<rparr>)\<rparr>)
       (Args1 {}) example_built
     = (Inr (example_info\<lparr>kernel := {}\<rparr>),
        example_executor\<lparr>memo := (memo example_executor)
          (Args0 \<mapsto> example_info\<lparr>kernel := {}\<rparr>,
           Args1 {} \<mapsto> example_info\<lparr>kernel := {}\<rparr>)\<rparr>,
        example_rebuilt) \<and>
   spawned example_rebuilt = spawned example_built @ example_compile \<and>
   example_kwargs_other \<noteq> example_kwargs \<and>
   CKernelExecutor_call example_collaborators example_env example_executor_built
       example_args example_kwargs_other example_called
     = (Inr [], example_executor_built, example_called_twice) \<and>
   spawned example_called_twice = spawned example_called"
proof (intro conjI)
  show "kernel_info_memo example_collaborators example_env example_executor Args0 example_world
     = (Inr (example_info\<lparr>kernel := {}\<rparr>),
        example_executor\<lparr>memo := (memo example_executor)
          (Args0 \<mapsto> example_info\<lparr>kernel := {}\<rparr>)\<rparr>,
        example_built)"
    unfolding kernel_info_memo_miss [OF example_memo_empty]
      example_body_any [OF example_executor_fields]
    by (simp add: example_built_eq example_world_def)
  have none: "memo (example_executor\<lparr>memo := (memo example_executor)
          (Args0 \<mapsto> example_info\<lparr>kernel := {}\<rparr>)\<rparr>) (Args1 {}) = None"
    by (simp add: example_memo_empty)
  have fields: "compiler (example_executor\<lparr>memo := m\<rparr>) = example_comp"
    "ktarget (example_executor\<lparr>memo := m\<rparr>) = example_target"
    "options (example_executor\<lparr>memo := m\<rparr>)
       = \<lparr>write_cl = WriteOff, highlight_cl = False, edit_cl = False\<rparr>" for m
    by (simp_all add: example_executor_fields)
  show "kernel_info_memo example_collaborators example_env
       (example_executor\<lparr>memo := (memo example_executor)
          (Args0 \<mapsto> example_info\<lparr>kernel := {}\<rparr>)\<rparr>)
       (Args1 {}) example_built
     = (Inr (example_info\<lparr>kernel := {}\<rparr>),
        example_executor\<lparr>memo := (memo example_executor)
          (Args0 \<mapsto> example_info\<lparr>kernel := {}\<rparr>,
           Args1 {} \<mapsto> example_info\<lparr>kernel := {}\<rparr>)\<rparr>,
        example_rebuilt)"
    unfolding kernel_info_memo_miss [OF none] example_body_any [OF fields]
    by (simp add: example_built_eq example_rebuilt_def)
  show "CKernelExecutor_call example_collaborators example_env example_executor_built
       example_args example_kwargs_other example_called
     = (Inr [], example_executor_built, example_called_twice)"
    unfolding CKernelExecutor_call_hit [OF example_stored [folded example_same_signature]]
    by (simp add: example_info_fields example_invoker_call example_called_def
        example_called_twice_def)
qed (simp_all add: example_built_eq example_rebuilt_def example_kwargs_def
       example_kwargs_other_def example_called_def example_called_twice_def)

theorem failed_build_not_cached_witness:
  "kernel_info_memo example_collaborators flaky_env example_executor example_key example_world
     = (Inl CalledProcessError, example_executor, example_failed) \<and>
   memo example_executor example_key = None \<and>
   kernel_info_memo example_collaborators flaky_env example_executor example_key example_failed
     = (Inr example_info,
        example_executor\<lparr>memo := (memo example_executor)(example_key \<mapsto> example_info)\<rparr>,
        example_retried)"
proof (intro conjI)
  have "kernel_info_memo example_collaborators flaky_env example_executor example_key
          example_failed =
        (case kernel_info_body example_collaborators flaky_env example_executor
                (arg_to_dtype_set_of example_key) example_failed of
           (Inl e2, w3) \<Rightarrow> (Inl e2, example_executor, w3)
         | (Inr r, w3) \<Rightarrow>
             (Inr r, example_executor\<lparr>memo := (memo example_executor)(example_key \<mapsto> r)\<rparr>,
              w3))"
    by (rule failed_build_not_cached [OF example_failed_request, THEN conjunct2, THEN conjunct2,
          rule_format])
  also have "arg_to_dtype_set_of example_key = {(''a'', Float32), (''n'', Int32)}"
    by (simp add: example_key_def)
  finally show "kernel_info_memo example_collaborators flaky_env example_executor example_key
      example_failed
     = (Inr example_info,
        example_executor\<lparr>memo := (memo example_executor)(example_key \<mapsto> example_info)\<rparr>,
        example_retried)"
    by (simp only: example_body_retried prod.case sum.case)
qed (rule example_failed_request example_memo_empty)+

end
